theory Spec2Isabelle
  imports Complex_Main
begin


section \<open>Framework tensors\<close>

text \<open>
  A tensor of the framework is its shape and its elements in row-major order, as a
  contiguous tensor is stored. Scores are real numbers (not-a-number values are outside
  the model); token indices are integers. The operations below are the framework's, in
  the form the notebooks call them; each raises what the framework raises.
\<close>

datatype error = IndexError | RuntimeError | Raised string

record 'a tensor =
  shape :: "nat list"
  elems :: "'a list"

definition well_formed :: "'a tensor \<Rightarrow> bool" where
  "well_formed x \<longleftrightarrow> length (elems x) = prod_list (shape x)"

text \<open>\<^verbatim>\<open>torch.zeros(*s)\<close>\<close>

definition zeros :: "nat list \<Rightarrow> real tensor" where
  "zeros s = \<lparr>shape = s, elems = replicate (prod_list s) 0\<rparr>"

text \<open>\<^verbatim>\<open>x.shape[-1]\<close> and \<^verbatim>\<open>x.shape[0]\<close>: indexing the empty shape of a
  0-dimensional tensor raises.\<close>

definition shape_last :: "'a tensor \<Rightarrow> error + nat" where
  "shape_last x = (case shape x of [] \<Rightarrow> Inl IndexError | d # ds \<Rightarrow> Inr (last (d # ds)))"

definition shape_first :: "'a tensor \<Rightarrow> error + nat" where
  "shape_first x = (case shape x of [] \<Rightarrow> Inl IndexError | d # ds \<Rightarrow> Inr d)"

text \<open>
  The value of an indexed assignment is broadcast to the shape of the slice it is
  assigned to: leading dimensions of size 1 are dropped from the value's shape, then every
  remaining dimension has to equal the slice's or to be 1, aligned from the last one. The
  slices assigned by the code are two-dimensional, \<open>[n, m]\<close>; the result is the block
  of \<open>n * m\<close> elements to store.
\<close>

definition expand_to2 :: "nat \<Rightarrow> nat \<Rightarrow> 'a tensor \<Rightarrow> error + 'a list" where
  "expand_to2 n m v =
     (case dropWhile (\<lambda>d. d = 1) (shape v) of
        [] \<Rightarrow> Inr (replicate (n * m) (elems v ! 0))
      | [c] \<Rightarrow>
          if c = m \<or> c = 1
          then Inr (map (\<lambda>p. elems v ! (if c = 1 then 0 else p mod m)) [0..<n * m])
          else Inl RuntimeError
      | [r, c] \<Rightarrow>
          if (r = n \<or> r = 1) \<and> (c = m \<or> c = 1)
          then Inr (map (\<lambda>p. elems v ! ((if r = 1 then 0 else p div m) * c
                                          + (if c = 1 then 0 else p mod m))) [0..<n * m])
          else Inl RuntimeError
      | _ \<Rightarrow> Inl RuntimeError)"

text \<open>\<^verbatim>\<open>x[i, :, k] = c\<close> on a 3-dimensional \<open>x\<close>, \<open>c\<close> a number.\<close>

definition setitem_scalar :: "'a tensor \<Rightarrow> nat \<Rightarrow> nat \<Rightarrow> 'a \<Rightarrow> error + 'a tensor" where
  "setitem_scalar x i k c =
     (case shape x of
        [d0, d1, d2] \<Rightarrow>
          if i < d0 \<and> k < d2
          then Inr (x\<lparr>elems := map (\<lambda>p. if p div (d1 * d2) = i \<and> p mod d2 = k then c
                                         else elems x ! p) [0..<d0 * d1 * d2]\<rparr>)
          else Inl IndexError
      | _ \<Rightarrow> Inl IndexError)"

text \<open>\<^verbatim>\<open>x[t, :, :] = v\<close> on a 3-dimensional \<open>x\<close>: the slice is the \<open>t\<close>-th block
  of \<open>d1 * d2\<close> elements.\<close>

definition setitem_first :: "'a tensor \<Rightarrow> nat \<Rightarrow> 'a tensor \<Rightarrow> error + 'a tensor" where
  "setitem_first x t v =
     (case shape x of
        [d0, d1, d2] \<Rightarrow>
          if t < d0
          then (case expand_to2 d1 d2 v of
                  Inl e \<Rightarrow> Inl e
                | Inr blk \<Rightarrow>
                    Inr (x\<lparr>elems := take (t * (d1 * d2)) (elems x) @ blk
                                     @ drop (t * (d1 * d2) + d1 * d2) (elems x)\<rparr>))
          else Inl IndexError
      | _ \<Rightarrow> Inl IndexError)"

text \<open>\<^verbatim>\<open>x[:, :, t] = v\<close> on a 3-dimensional \<open>x\<close>.\<close>

definition setitem_last :: "'a tensor \<Rightarrow> nat \<Rightarrow> 'a tensor \<Rightarrow> error + 'a tensor" where
  "setitem_last x t v =
     (case shape x of
        [d0, d1, d2] \<Rightarrow>
          if t < d2
          then (case expand_to2 d0 d1 v of
                  Inl e \<Rightarrow> Inl e
                | Inr blk \<Rightarrow>
                    Inr (x\<lparr>elems := map (\<lambda>p. if p mod d2 = t then blk ! (p div d2)
                                               else elems x ! p) [0..<d0 * d1 * d2]\<rparr>))
          else Inl IndexError
      | _ \<Rightarrow> Inl IndexError)"

text \<open>\<^verbatim>\<open>x.squeeze()\<close> removes every dimension of size 1; the elements stay.\<close>

definition squeeze_all :: "'a tensor \<Rightarrow> 'a tensor" where
  "squeeze_all x = x\<lparr>shape := filter (\<lambda>d. d \<noteq> 1) (shape x)\<rparr>"

text \<open>\<^verbatim>\<open>x.argmax(-1)\<close>: along the last dimension, the index of the first greatest
  element; a last dimension of size 0 raises.\<close>

fun argmax_acc :: "real \<Rightarrow> nat \<Rightarrow> nat \<Rightarrow> real list \<Rightarrow> nat" where
  "argmax_acc best bi i [] = bi"
| "argmax_acc best bi i (x # xs) =
     (if best < x then argmax_acc x i (Suc i) xs else argmax_acc best bi (Suc i) xs)"

definition argmax_row :: "real list \<Rightarrow> nat" where
  "argmax_row xs = argmax_acc (hd xs) 0 1 (tl xs)"

definition argmax_last :: "real tensor \<Rightarrow> error + int tensor" where
  "argmax_last x =
     (case shape x of
        [] \<Rightarrow> Inr \<lparr>shape = [], elems = [0]\<rparr>
      | d # ds \<Rightarrow>
          (let c = last (d # ds); pre = butlast (d # ds) in
           if c = 0 then Inl IndexError
           else Inr \<lparr>shape = pre,
                     elems = map (\<lambda>i. int (argmax_row (take c (drop (i * c) (elems x)))))
                               [0..<prod_list pre]\<rparr>))"

section \<open>The sequence-to-sequence model\<close>

text \<open>
  \<open>Seq2Seq\<close> (the notebook with attention, \<^verbatim>\<open>src/unnamed/part_001\<close>) stores an
  encoder, a decoder and the decoder's \<open>output_dim\<close>. Encoder and decoder are modules
  built from framework layers; calling one may raise, and it reads and advances the
  state \<open>'w\<close> of the framework (parameters, mode, random generator of the dropout
  layers). The elements of a prediction are the scores of the target vocabulary.
\<close>

type_synonym ('w, 'eo, 'h) encoder_forward =
  "'w \<Rightarrow> int tensor \<Rightarrow> error + (('eo \<times> 'h) \<times> 'w)"

type_synonym ('w, 'eo, 'h) decoder_forward =
  "'w \<Rightarrow> int tensor \<Rightarrow> 'h \<Rightarrow> 'eo \<Rightarrow> error + ((real tensor \<times> 'h \<times> real tensor) \<times> 'w)"

record ('w, 'eo, 'h) decoder_module =
  output_dim :: nat
  decoder_call :: "('w, 'eo, 'h) decoder_forward"

record ('w, 'eo, 'h) seq2seq =
  encoder :: "('w, 'eo, 'h) encoder_forward"
  decoder :: "('w, 'eo, 'h) decoder_forward"
  trg_vocab_size :: nat

text \<open>\<^verbatim>\<open>Seq2Seq.__init__(self, encoder, decoder)\<close>\<close>

definition Seq2Seq_init ::
  "('w, 'eo, 'h) encoder_forward \<Rightarrow> ('w, 'eo, 'h) decoder_module \<Rightarrow> ('w, 'eo, 'h) seq2seq" where
  "Seq2Seq_init enc dec =
     \<lparr>encoder = enc, decoder = decoder_call dec, trg_vocab_size = output_dim dec\<rparr>"

text \<open>
  The body of \<^verbatim>\<open>for t in range(1, trg_len)\<close>, over the list of the values of
  \<open>t\<close> still to run; the loop's variables are \<open>pred_probas\<close>, \<open>attn\<close>,
  \<open>input_idx\<close>, \<open>hidden\<close> and the framework's state.
\<close>

fun decode_loop ::
  "('w, 'eo, 'h) decoder_forward \<Rightarrow> 'eo \<Rightarrow> nat list
   \<Rightarrow> real tensor \<times> real tensor \<times> int tensor \<times> 'h \<times> 'w
   \<Rightarrow> error + (real tensor \<times> real tensor \<times> int tensor \<times> 'h \<times> 'w)" where
  "decode_loop dec enc_outputs [] st = Inr st"
| "decode_loop dec enc_outputs (t # ts) (pred_probas, attn, input_idx, hidden, w) =
     (case dec w input_idx hidden enc_outputs of
        Inl e \<Rightarrow> Inl e
      | Inr ((pred_proba_t, hidden', a), w') \<Rightarrow>
          (case setitem_first pred_probas t pred_proba_t of
             Inl e \<Rightarrow> Inl e
           | Inr pred_probas' \<Rightarrow>
               (case argmax_last pred_proba_t of
                  Inl e \<Rightarrow> Inl e
                | Inr input_idx' \<Rightarrow>
                    (case setitem_last attn t (squeeze_all a) of
                       Inl e \<Rightarrow> Inl e
                     | Inr attn' \<Rightarrow>
                         decode_loop dec enc_outputs ts
                           (pred_probas', attn', input_idx', hidden', w')))))"

text \<open>\<^verbatim>\<open>Seq2Seq.forward(self, src, trg_len)\<close>; \<open>trg_len\<close> is the first dimension of
  a target batch, a natural number.\<close>

definition Seq2Seq_forward ::
  "('w, 'eo, 'h) seq2seq \<Rightarrow> 'w \<Rightarrow> int tensor \<Rightarrow> nat
   \<Rightarrow> error + ((real tensor \<times> real tensor) \<times> 'w)" where
  "Seq2Seq_forward self w src trg_len =
     (case shape_last src of
        Inl e \<Rightarrow> Inl e
      | Inr batch_size \<Rightarrow>
          (case setitem_scalar (zeros [trg_len, batch_size, trg_vocab_size self]) 0 2 1 of
             Inl e \<Rightarrow> Inl e
           | Inr pred_probas \<Rightarrow>
               (case shape_first src of
                  Inl e \<Rightarrow> Inl e
                | Inr src_len \<Rightarrow>
                    (case encoder self w src of
                       Inl e \<Rightarrow> Inl e
                     | Inr ((enc_outputs, hidden), w1) \<Rightarrow>
                         (case decode_loop (decoder self) enc_outputs [1..<trg_len]
                                 (pred_probas, zeros [batch_size, src_len, trg_len],
                                  \<lparr>shape = [batch_size], elems = replicate batch_size 2\<rparr>,
                                  hidden, w1) of
                            Inl e \<Rightarrow> Inl e
                          | Inr (pred_probas', attn', input_idx', hidden', w') \<Rightarrow>
                              Inr ((pred_probas', attn'), w'))))))"

section \<open>Data setup of the translation notebooks\<close>

text \<open>
  Every translation notebook loads the three Multi30k splits and then keeps a subset:
  \<^verbatim>\<open>
  train_data.examples = train_data.examples[:1000]
  valid_data.examples = valid_data.examples[:100]
  test_data.examples = train_data.examples[:100]
  \<close>
  A split is the list of its examples; the three assignments run in this order, each on
  the datasets as the previous one left them. Python's \<open>xs[:n]\<close> is \<open>take n xs\<close>.
\<close>

record 'ex splits =
  train_examples :: "'ex list"
  valid_examples :: "'ex list"
  test_examples :: "'ex list"

definition take_subset :: "'ex splits \<Rightarrow> 'ex splits" where
  "take_subset d =
     (let d1 = d\<lparr>train_examples := take 1000 (train_examples d)\<rparr>;
          d2 = d1\<lparr>valid_examples := take 100 (valid_examples d1)\<rparr>;
          d3 = d2\<lparr>test_examples := take 100 (train_examples d2)\<rparr>
      in d3)"

text \<open>\<^verbatim>\<open>x[i, j]\<close> of a 2-dimensional tensor and \<^verbatim>\<open>x[i, j, k]\<close> of a
  3-dimensional one.\<close>

definition at2 :: "'a tensor \<Rightarrow> nat \<Rightarrow> nat \<Rightarrow> 'a" where
  "at2 x i j = elems x ! (i * (shape x ! 1) + j)"

definition at3 :: "'a tensor \<Rightarrow> nat \<Rightarrow> nat \<Rightarrow> nat \<Rightarrow> 'a" where
  "at3 x i j k = elems x ! ((i * (shape x ! 1) + j) * (shape x ! 2) + k)"

text \<open>A model instance with constant modules, to run the forward pass on.\<close>

definition stub_model :: "(unit, unit, unit) seq2seq" where
  "stub_model = \<lparr>encoder = (\<lambda>w src. Inr (((), ()), w)),
     decoder = (\<lambda>w idx h enc. Inr ((\<lparr>shape = [1, 3], elems = [0, 1, 0]\<rparr>, (),
                                     \<lparr>shape = [1, 1, 2], elems = [1, 0]\<rparr>), w)),
     trg_vocab_size = 3\<rparr>"

section \<open>Greedy decoding, as the specification words it\<close>

text \<open>
  The decoder starts from the \<open><sos>\<close> token, index 2, for every sentence of the
  batch.
\<close>

definition sos_input :: "nat \<Rightarrow> int tensor" where
  "sos_input batch_size = \<lparr>shape = [batch_size], elems = replicate batch_size 2\<rparr>"

text \<open>
  \<open>n\<close> decoding steps from a decoder input, a hidden state and a framework state:
  each step applies the decoder once to the current input, the current hidden state and
  the encoder's outputs, keeps the prediction, and feeds the index of the highest score of
  each sentence's prediction to the next step. The result is the list of the predictions
  of the steps, in order, and the input, hidden state and framework state after the last.
\<close>

fun greedy_steps ::
  "('w, 'eo, 'h) decoder_forward \<Rightarrow> 'eo \<Rightarrow> nat \<Rightarrow> int tensor \<times> 'h \<times> 'w
   \<Rightarrow> error + (real tensor list \<times> (int tensor \<times> 'h \<times> 'w))" where
  "greedy_steps dec context 0 st = Inr ([], st)"
| "greedy_steps dec context (Suc n) (input, h, w) =
     (case dec w input h context of
        Inl e \<Rightarrow> Inl e
      | Inr ((prediction, h', a), w') \<Rightarrow>
          (case argmax_last prediction of
             Inl e \<Rightarrow> Inl e
           | Inr best \<Rightarrow>
               (case greedy_steps dec context n (best, h', w') of
                  Inl e \<Rightarrow> Inl e
                | Inr (ps, st) \<Rightarrow> Inr (prediction # ps, st))))"

text \<open>\<^verbatim>\<open>x[t]\<close>, the elements of position \<open>t\<close> along the first dimension.\<close>

definition position :: "'a tensor \<Rightarrow> nat \<Rightarrow> 'a list" where
  "position x t =
     take (prod_list (tl (shape x))) (drop (t * prod_list (tl (shape x))) (elems x))"

section \<open>Framework operations of the encoder, the attention and the decoder\<close>

text \<open>The 3-dimensional tensor of shape \<open>[d0, d1, d2]\<close> whose element \<open>[i, j, k]\<close> is
  \<open>f i j k\<close>.\<close>

definition tab3 :: "nat \<Rightarrow> nat \<Rightarrow> nat \<Rightarrow> (nat \<Rightarrow> nat \<Rightarrow> nat \<Rightarrow> 'a) \<Rightarrow> 'a tensor" where
  "tab3 d0 d1 d2 f =
     \<lparr>shape = [d0, d1, d2],
      elems = map (\<lambda>p. f (p div (d1 * d2)) (p div d2 mod d1) (p mod d2)) [0..<d0 * d1 * d2]\<rparr>"

text \<open>\<^verbatim>\<open>x.unsqueeze(d)\<close> inserts a dimension of size 1 before dimension \<open>d\<close>.\<close>

definition unsqueeze :: "'a tensor \<Rightarrow> nat \<Rightarrow> error + 'a tensor" where
  "unsqueeze x d =
     (if d \<le> length (shape x)
      then Inr (x\<lparr>shape := take d (shape x) @ [1] @ drop d (shape x)\<rparr>)
      else Inl IndexError)"

text \<open>\<^verbatim>\<open>x.squeeze(d)\<close> removes dimension \<open>d\<close> when its size is 1, and returns
  \<open>x\<close> as it is otherwise.\<close>

definition squeeze_dim :: "'a tensor \<Rightarrow> nat \<Rightarrow> error + 'a tensor" where
  "squeeze_dim x d =
     (if d < length (shape x)
      then Inr (if shape x ! d = 1
                then x\<lparr>shape := take d (shape x) @ drop (Suc d) (shape x)\<rparr> else x)
      else if shape x = [] \<and> d = 0 then Inr x
      else Inl IndexError)"

text \<open>\<^verbatim>\<open>x.repeat(r0, r1, r2)\<close>: a tensor of fewer than three dimensions is read
  with leading dimensions of size 1, one of more than three raises.\<close>

definition repeat3 :: "'a tensor \<Rightarrow> nat \<Rightarrow> nat \<Rightarrow> nat \<Rightarrow> error + 'a tensor" where
  "repeat3 x r0 r1 r2 =
     (case replicate (3 - length (shape x)) 1 @ shape x of
        [a, b, c] \<Rightarrow>
          Inr (tab3 (r0 * a) (r1 * b) (r2 * c)
                 (\<lambda>i j k. elems x ! ((i mod a * b + j mod b) * c + k mod c)))
      | _ \<Rightarrow> Inl RuntimeError)"

text \<open>\<^verbatim>\<open>x.permute(1, 0, 2)\<close>\<close>

definition permute102 :: "'a tensor \<Rightarrow> error + 'a tensor" where
  "permute102 x =
     (case shape x of
        [a, b, c] \<Rightarrow> Inr (tab3 b a c (\<lambda>i j k. at3 x j i k))
      | _ \<Rightarrow> Inl RuntimeError)"

text \<open>\<^verbatim>\<open>torch.cat((x, y), dim=2)\<close>, where the code has it one of the two is
  3-dimensional, so that the other has to be.\<close>

definition cat2 :: "'a tensor \<Rightarrow> 'a tensor \<Rightarrow> error + 'a tensor" where
  "cat2 x y =
     (case (shape x, shape y) of
        ([a, b, c], [a', b', c']) \<Rightarrow>
          if a = a' \<and> b = b'
          then Inr (tab3 a b (c + c')
                      (\<lambda>i j k. if k < c then at3 x i j k else at3 y i j (k - c)))
          else Inl RuntimeError
      | _ \<Rightarrow> Inl RuntimeError)"

text \<open>\<^verbatim>\<open>torch.bmm(x, y)\<close>, the batch of matrix products.\<close>

definition bmm :: "real tensor \<Rightarrow> real tensor \<Rightarrow> error + real tensor" where
  "bmm x y =
     (case (shape x, shape y) of
        ([b, n, m], [b', m', p]) \<Rightarrow>
          if b = b' \<and> m = m'
          then Inr (tab3 b n p
                      (\<lambda>i j k. sum_list (map (\<lambda>s. at3 x i j s * at3 y i s k) [0..<m])))
          else Inl RuntimeError
      | _ \<Rightarrow> Inl RuntimeError)"

text \<open>\<^verbatim>\<open>nn.Softmax(dim=1)(x)\<close>: the elements along dimension 1 are replaced by their
  exponentials over the sum of the exponentials along that dimension.\<close>

definition softmax_dim1 :: "real tensor \<Rightarrow> error + real tensor" where
  "softmax_dim1 x =
     (case shape x of
        a # b # rest \<Rightarrow>
          Inr (x\<lparr>elems :=
                 map (\<lambda>p. exp (elems x ! p)
                        / sum_list (map (\<lambda>j. exp (elems x ! (p div (b * prod_list rest)
                                 * (b * prod_list rest) + j * prod_list rest
                                 + p mod prod_list rest))) [0..<b]))
                   [0..<a * b * prod_list rest]\<rparr>)
      | _ \<Rightarrow> Inl IndexError)"

section \<open>Encoder, attention and decoder\<close>

text \<open>
  The layers of a module are framework objects: an embedding, a dropout layer (which
  draws from the framework's random generator in training mode), a GRU, linear layers.
  Each is what it computes on a tensor, and may raise.
\<close>

record 'w encoder_layers =
  enc_embedding_layer :: "int tensor \<Rightarrow> error + real tensor"
  enc_dropout :: "'w \<Rightarrow> real tensor \<Rightarrow> real tensor \<times> 'w"
  enc_gru :: "real tensor \<Rightarrow> error + (real tensor \<times> real tensor)"

text \<open>\<^verbatim>\<open>Encoder.forward(self, src)\<close>\<close>

definition Encoder_forward :: "'w encoder_layers \<Rightarrow> ('w, real tensor, real tensor) encoder_forward" where
  "Encoder_forward self w src =
     (case enc_embedding_layer self src of
        Inl e \<Rightarrow> Inl e
      | Inr y \<Rightarrow>
          (case enc_dropout self w y of
             (y, w') \<Rightarrow>
               (case enc_gru self y of
                  Inl e \<Rightarrow> Inl e
                | Inr (enc_outputs, enc_context) \<Rightarrow> Inr ((enc_outputs, enc_context), w'))))"

record attention_layers =
  energy_layer :: "real tensor \<Rightarrow> error + real tensor"
  attn_v :: "real tensor \<Rightarrow> error + real tensor"

text \<open>\<^verbatim>\<open>Attention.forward(self, dec_hidden, enc_outputs)\<close>; \<open>attn_v\<close> is the layer
  \<^verbatim>\<open>self.v\<close>.\<close>

definition Attention_forward ::
  "attention_layers \<Rightarrow> real tensor \<Rightarrow> real tensor \<Rightarrow> error + real tensor" where
  "Attention_forward self dec_hidden enc_outputs =
     (case shape_first enc_outputs of
        Inl e \<Rightarrow> Inl e
      | Inr src_len \<Rightarrow>
     (case unsqueeze (squeeze_all dec_hidden) 0 of
        Inl e \<Rightarrow> Inl e
      | Inr dec_hidden1 \<Rightarrow>
     (case repeat3 dec_hidden1 src_len 1 1 of
        Inl e \<Rightarrow> Inl e
      | Inr dec_hidden2 \<Rightarrow>
     (case permute102 dec_hidden2 of
        Inl e \<Rightarrow> Inl e
      | Inr dec_hidden3 \<Rightarrow>
     (case permute102 enc_outputs of
        Inl e \<Rightarrow> Inl e
      | Inr enc_outputs1 \<Rightarrow>
     (case cat2 dec_hidden3 enc_outputs1 of
        Inl e \<Rightarrow> Inl e
      | Inr comb_inputs \<Rightarrow>
     (case energy_layer self comb_inputs of
        Inl e \<Rightarrow> Inl e
      | Inr energy \<Rightarrow>
     (case attn_v self energy of
        Inl e \<Rightarrow> Inl e
      | Inr scores \<Rightarrow>
     (case squeeze_dim scores 2 of
        Inl e \<Rightarrow> Inl e
      | Inr attn \<Rightarrow> softmax_dim1 attn)))))))))"

record 'w decoder_layers =
  embedding_layer :: "int tensor \<Rightarrow> error + real tensor"
  dropout_layer :: "'w \<Rightarrow> real tensor \<Rightarrow> real tensor \<times> 'w"
  gru :: "real tensor \<Rightarrow> real tensor \<Rightarrow> error + (real tensor \<times> real tensor)"
  linear_layer :: "real tensor \<Rightarrow> error + real tensor"
  attention :: attention_layers

text \<open>\<^verbatim>\<open>Decoder.forward(self, input_idx, input_hidden, enc_outputs)\<close>\<close>

definition Decoder_forward :: "'w decoder_layers \<Rightarrow> ('w, real tensor, real tensor) decoder_forward" where
  "Decoder_forward self w input_idx input_hidden enc_outputs =
     (case embedding_layer self input_idx of
        Inl e \<Rightarrow> Inl e
      | Inr emb \<Rightarrow>
     (case dropout_layer self w emb of
        (y0, w') \<Rightarrow>
     (case unsqueeze y0 0 of
        Inl e \<Rightarrow> Inl e
      | Inr y \<Rightarrow>
     (case Attention_forward (attention self) input_hidden enc_outputs of
        Inl e \<Rightarrow> Inl e
      | Inr a0 \<Rightarrow>
     (case unsqueeze a0 1 of
        Inl e \<Rightarrow> Inl e
      | Inr a \<Rightarrow>
     (case permute102 enc_outputs of
        Inl e \<Rightarrow> Inl e
      | Inr enc_outputs1 \<Rightarrow>
     (case bmm a enc_outputs1 of
        Inl e \<Rightarrow> Inl e
      | Inr weighted0 \<Rightarrow>
     (case permute102 weighted0 of
        Inl e \<Rightarrow> Inl e
      | Inr weighted \<Rightarrow>
     (case cat2 y weighted of
        Inl e \<Rightarrow> Inl e
      | Inr rnn_input \<Rightarrow>
     (case gru self rnn_input input_hidden of
        Inl e \<Rightarrow> Inl e
      | Inr (output, hidden) \<Rightarrow>
     (case squeeze_dim output 0 of
        Inl e \<Rightarrow> Inl e
      | Inr output1 \<Rightarrow>
     (case linear_layer self output1 of
        Inl e \<Rightarrow> Inl e
      | Inr pred_proba \<Rightarrow> Inr ((pred_proba, hidden, a), w')))))))))))))"

text \<open>
  The model of the notebook: \<^verbatim>\<open>Seq2Seq(Encoder(...), Decoder(output_dim, ...))\<close>.
\<close>

definition attention_model ::
  "'w encoder_layers \<Rightarrow> nat \<Rightarrow> 'w decoder_layers \<Rightarrow> ('w, real tensor, real tensor) seq2seq" where
  "attention_model enc_layers out_dim dec_layers =
     Seq2Seq_init (Encoder_forward enc_layers)
       \<lparr>output_dim = out_dim, decoder_call = Decoder_forward dec_layers\<rparr>"

text \<open>
  Layers to run the model on: they compute zeros of the shapes the layers of the notebook
  give (embeddings of size 1, hidden states of size 2, a target vocabulary of 3 tokens),
  and the dropout layers pass their input on, as in evaluation mode.
\<close>

definition zero_encoder :: "unit encoder_layers" where
  "zero_encoder =
     \<lparr>enc_embedding_layer = (\<lambda>src. Inr (zeros (shape src @ [1]))),
      enc_dropout = (\<lambda>w y. (y, w)),
      enc_gru = (\<lambda>y. Inr (zeros [shape y ! 0, shape y ! 1, 2], zeros [1, shape y ! 1, 2]))\<rparr>"

definition zero_decoder :: "unit decoder_layers" where
  "zero_decoder =
     \<lparr>embedding_layer = (\<lambda>idx. Inr (zeros (shape idx @ [1]))),
      dropout_layer = (\<lambda>w y. (y, w)),
      gru = (\<lambda>x h. Inr (zeros [shape x ! 0, shape x ! 1, 2], zeros [1, shape x ! 1, 2])),
      linear_layer = (\<lambda>x. Inr (zeros (butlast (shape x) @ [3]))),
      attention =
        \<lparr>energy_layer = (\<lambda>x. Inr (zeros (butlast (shape x) @ [2]))),
         attn_v = (\<lambda>x. Inr (zeros (butlast (shape x) @ [1])))\<rparr>\<rparr>"

section \<open>Attention at a decoder call, as the specification words it\<close>



section \<open>Training and evaluation\<close>

text \<open>
  The training and evaluation functions of the notebooks get a model, a dataloader, a
  loss function and an optimizer, all framework objects that share the state \<open>'w\<close>
  (parameters, gradients, optimizer moments, mode, device, random generators). An
  object is the record of its methods. Output printed to the console is left out.
\<close>

record batch =
  batch_src :: "int tensor"
  batch_trg :: "int tensor"

type_synonym 'w dataloader = "'w \<Rightarrow> batch list \<times> 'w"

record ('w, 'out, 'sd) nn_module =
  module_train :: "'w \<Rightarrow> 'w"
  module_eval :: "'w \<Rightarrow> 'w"
  module_to :: "string \<Rightarrow> 'w \<Rightarrow> error + 'w"
  module_call :: "'w \<Rightarrow> int tensor \<Rightarrow> nat \<Rightarrow> error + ('out \<times> 'w)"
  state_dict :: "'w \<Rightarrow> 'sd"

record 'w optimizer =
  zero_grad :: "'w \<Rightarrow> 'w"
  step :: "'w \<Rightarrow> error + 'w"

record 'w loss_value =
  item :: real
  backward :: "'w \<Rightarrow> error + 'w"

type_synonym 'w loss_function = "real tensor \<Rightarrow> int tensor \<Rightarrow> error + 'w loss_value"

text \<open>
  The framework functions the code calls directly: what moving a tensor to a device
  raises, if anything (\<^verbatim>\<open>x.to(device)\<close> keeps the elements), gradient clipping, what
  writing a file raises, if anything, and the BLEU score of the text library.
\<close>

record 'w torch_env =
  tensor_to_raises :: "string \<Rightarrow> error option"
  clip_grad_norm :: "real \<Rightarrow> 'w \<Rightarrow> error + 'w"
  save_raises :: "string \<Rightarrow> error option"
  bleu_score :: "string list list \<Rightarrow> string list list list \<Rightarrow> error + real"

definition tensor_to :: "'w torch_env \<Rightarrow> 'a tensor \<Rightarrow> string \<Rightarrow> error + 'a tensor" where
  "tensor_to env x device =
     (case tensor_to_raises env device of Some e \<Rightarrow> Inl e | None \<Rightarrow> Inr x)"

text \<open>\<^verbatim>\<open>x[1:]\<close>: all positions of the first dimension but the first.\<close>

definition slice_from1 :: "'a tensor \<Rightarrow> error + 'a tensor" where
  "slice_from1 x =
     (case shape x of
        [] \<Rightarrow> Inl IndexError
      | d # ds \<Rightarrow> Inr \<lparr>shape = (d - 1) # ds, elems = drop (prod_list ds) (elems x)\<rparr>)"

text \<open>\<^verbatim>\<open>x.view(-1, n)\<close> and \<^verbatim>\<open>x.view(-1)\<close> of a contiguous tensor.\<close>

definition view_rows :: "'a tensor \<Rightarrow> nat \<Rightarrow> error + 'a tensor" where
  "view_rows x n =
     (if n = 0 \<or> prod_list (shape x) mod n \<noteq> 0 then Inl RuntimeError
      else Inr \<lparr>shape = [prod_list (shape x) div n, n], elems = elems x\<rparr>)"

definition view_flat :: "'a tensor \<Rightarrow> 'a tensor" where
  "view_flat x = \<lparr>shape = [prod_list (shape x)], elems = elems x\<rparr>"

text \<open>
  Files: a path holds what a save routine wrote there, a parameter dictionary, a whole
  module, a tensor or an array.
\<close>

datatype save_routine = Torch_save | Numpy_save

datatype ('sd, 'm) stored = State_dict 'sd | Module 'm | Tensor_data "real tensor"
  | Array_data "real tensor"

type_synonym ('sd, 'm) files = "string \<rightharpoonup> save_routine \<times> ('sd, 'm) stored"

text \<open>\<^verbatim>\<open>torch.save(obj, path)\<close> and \<^verbatim>\<open>np.save(path, arr)\<close>\<close>

definition torch_save ::
  "(string \<Rightarrow> error option) \<Rightarrow> ('sd, 'm) stored \<Rightarrow> string \<Rightarrow> ('sd, 'm) files
   \<Rightarrow> error + ('sd, 'm) files" where
  "torch_save raises obj path fs =
     (case raises path of Some e \<Rightarrow> Inl e | None \<Rightarrow> Inr (fs(path \<mapsto> (Torch_save, obj))))"


text \<open>
  The loop over the batches of one epoch in \<^verbatim>\<open>training_seq2seq\<close>
  (\<^verbatim>\<open>src/unnamed/part_000\<close>) and in \<^verbatim>\<open>training_validation_bleu\<close>
  (\<^verbatim>\<open>src/unnamed/part_001\<close>). The two bodies differ in one place: the model
  of the first returns the predictions, \<^verbatim>\<open>pred_probas = model(src, trg_len)\<close>, the
  model of the second a pair, \<^verbatim>\<open>pred_probas, _ = model(src, trg_len)\<close>; \<open>unpack\<close>
  is that step.
\<close>

fun train_batches ::
  "'w torch_env \<Rightarrow> ('out \<Rightarrow> real tensor) \<Rightarrow> ('w, 'out, 'sd) nn_module \<Rightarrow> 'w loss_function
   \<Rightarrow> 'w optimizer \<Rightarrow> string \<Rightarrow> batch list \<Rightarrow> real \<times> 'w \<Rightarrow> error + (real \<times> 'w)" where
  "train_batches env unpack model loss_fn optimizer device [] acc = Inr acc"
| "train_batches env unpack model loss_fn optimizer device (b # rest) (loss_current_epoch, w) =
     (case tensor_to env (batch_src b) device of
        Inl e \<Rightarrow> Inl e
      | Inr src \<Rightarrow>
     (case tensor_to env (batch_trg b) device of
        Inl e \<Rightarrow> Inl e
      | Inr trg \<Rightarrow>
     (case shape_first trg of
        Inl e \<Rightarrow> Inl e
      | Inr trg_len \<Rightarrow>
     (case module_call model (zero_grad optimizer w) src trg_len of
        Inl e \<Rightarrow> Inl e
      | Inr (out, w1) \<Rightarrow>
     (case shape_last (unpack out) of
        Inl e \<Rightarrow> Inl e
      | Inr output_dim' \<Rightarrow>
     (case slice_from1 (unpack out) of
        Inl e \<Rightarrow> Inl e
      | Inr pred_probas1 \<Rightarrow>
     (case view_rows pred_probas1 output_dim' of
        Inl e \<Rightarrow> Inl e
      | Inr pred_probas \<Rightarrow>
     (case slice_from1 trg of
        Inl e \<Rightarrow> Inl e
      | Inr trg1 \<Rightarrow>
     (case loss_fn pred_probas (view_flat trg1) of
        Inl e \<Rightarrow> Inl e
      | Inr loss \<Rightarrow>
     (case backward loss w1 of
        Inl e \<Rightarrow> Inl e
      | Inr w2 \<Rightarrow>
     (case clip_grad_norm env 1 w2 of
        Inl e \<Rightarrow> Inl e
      | Inr w3 \<Rightarrow>
     (case step optimizer w3 of
        Inl e \<Rightarrow> Inl e
      | Inr w4 \<Rightarrow>
          train_batches env unpack model loss_fn optimizer device rest
            (loss_current_epoch + item loss, w4)))))))))))))"

text \<open>
  The loop over the epochs of \<^verbatim>\<open>training_seq2seq\<close>, which ends every epoch with
  \<^verbatim>\<open>torch.save(model.state_dict(), 'lstm_model.pt')\<close>. The files written so far stay
  when a later step raises, so the result is the files together with the outcome.
\<close>

fun training_seq2seq_epochs ::
  "'w torch_env \<Rightarrow> ('w, real tensor, 'sd) nn_module \<Rightarrow> 'w dataloader \<Rightarrow> 'w loss_function
   \<Rightarrow> 'w optimizer \<Rightarrow> string \<Rightarrow> nat list \<Rightarrow> real list \<times> 'w \<Rightarrow> ('sd, 'm) files
   \<Rightarrow> ('sd, 'm) files \<times> (error + (real list \<times> 'w))" where
  "training_seq2seq_epochs env model train_dataloader loss_fn optimizer device [] acc fs =
     (fs, Inr acc)"
| "training_seq2seq_epochs env model train_dataloader loss_fn optimizer device (epoch # epochs)
       (loss_total, w) fs =
     (case train_dataloader w of
        (batches, w0) \<Rightarrow>
     (case train_batches env (\<lambda>pred_probas. pred_probas) model loss_fn optimizer device
             batches (0, w0) of
        Inl e \<Rightarrow> (fs, Inl e)
      | Inr (loss_current_epoch, w1) \<Rightarrow>
     (case torch_save (save_raises env) (State_dict (state_dict model w1)) ''lstm_model.pt'' fs of
        Inl e \<Rightarrow> (fs, Inl e)
      | Inr fs1 \<Rightarrow>
          training_seq2seq_epochs env model train_dataloader loss_fn optimizer device epochs
            (loss_total @ [loss_current_epoch], w1) fs1)))"

text \<open>\<^verbatim>\<open>training_seq2seq(model, train_dataloader, num_epochs, loss_fn, optimizer,
  device)\<close>\<close>

definition training_seq2seq ::
  "'w torch_env \<Rightarrow> ('w, real tensor, 'sd) nn_module \<Rightarrow> 'w dataloader \<Rightarrow> nat \<Rightarrow> 'w loss_function
   \<Rightarrow> 'w optimizer \<Rightarrow> string \<Rightarrow> 'w \<Rightarrow> ('sd, 'm) files
   \<Rightarrow> ('sd, 'm) files \<times> (error + (real list \<times> 'w))" where
  "training_seq2seq env model train_dataloader num_epochs loss_fn optimizer device w fs =
     (case module_to model device (module_train model w) of
        Inl e \<Rightarrow> (fs, Inl e)
      | Inr w1 \<Rightarrow>
          training_seq2seq_epochs env model train_dataloader loss_fn optimizer device
            [0..<num_epochs] ([], w1) fs)"

text \<open>
  \<^verbatim>\<open>training_validation_bleu\<close>, as the notebook has it: the validation at the end of
  an epoch is left to write, no file is saved, and the list of validation scores returned
  is the empty one it starts with.
\<close>

fun training_validation_bleu_epochs ::
  "'w torch_env \<Rightarrow> ('w, real tensor \<times> real tensor, 'sd) nn_module \<Rightarrow> 'w dataloader
   \<Rightarrow> 'w loss_function \<Rightarrow> 'w optimizer \<Rightarrow> string \<Rightarrow> nat list \<Rightarrow> real list \<times> 'w
   \<Rightarrow> error + (real list \<times> 'w)" where
  "training_validation_bleu_epochs env model train_dataloader loss_fn optimizer device [] acc =
     Inr acc"
| "training_validation_bleu_epochs env model train_dataloader loss_fn optimizer device
       (epoch # epochs) (loss_train_total, w) =
     (case train_dataloader w of
        (batches, w0) \<Rightarrow>
     (case train_batches env fst model loss_fn optimizer device batches (0, w0) of
        Inl e \<Rightarrow> Inl e
      | Inr (loss_current_epoch, w1) \<Rightarrow>
          training_validation_bleu_epochs env model train_dataloader loss_fn optimizer device
            epochs (loss_train_total @ [loss_current_epoch], w1)))"

definition training_validation_bleu ::
  "'w torch_env \<Rightarrow> ('w, real tensor \<times> real tensor, 'sd) nn_module \<Rightarrow> 'w dataloader \<Rightarrow> nat
   \<Rightarrow> 'w loss_function \<Rightarrow> 'w optimizer \<Rightarrow> string \<Rightarrow> 'w
   \<Rightarrow> error + ((real list \<times> real list) \<times> 'w)" where
  "training_validation_bleu env model train_dataloader num_epochs loss_fn optimizer device w =
     (case module_to model device (module_train model w) of
        Inl e \<Rightarrow> Inl e
      | Inr w1 \<Rightarrow>
     (case training_validation_bleu_epochs env model train_dataloader loss_fn optimizer device
             [0..<num_epochs] ([], w1) of
        Inl e \<Rightarrow> Inl e
      | Inr (loss_train_total, w2) \<Rightarrow> Inr ((loss_train_total, []), w2)))"

text \<open>The loop over the batches of \<^verbatim>\<open>evaluate_seq2seq\<close> (\<^verbatim>\<open>src/unnamed/part_000\<close>).\<close>

fun evaluate_batches ::
  "'w torch_env \<Rightarrow> ('w, real tensor, 'sd) nn_module \<Rightarrow> 'w loss_function \<Rightarrow> string
   \<Rightarrow> batch list \<Rightarrow> real \<times> 'w \<Rightarrow> error + (real \<times> 'w)" where
  "evaluate_batches env model loss_fn device [] acc = Inr acc"
| "evaluate_batches env model loss_fn device (b # rest) (loss_eval, w) =
     (case tensor_to env (batch_src b) device of
        Inl e \<Rightarrow> Inl e
      | Inr src \<Rightarrow>
     (case tensor_to env (batch_trg b) device of
        Inl e \<Rightarrow> Inl e
      | Inr trg \<Rightarrow>
     (case shape_first trg of
        Inl e \<Rightarrow> Inl e
      | Inr trg_len \<Rightarrow>
     (case module_call model w src trg_len of
        Inl e \<Rightarrow> Inl e
      | Inr (out, w1) \<Rightarrow>
     (case shape_last out of
        Inl e \<Rightarrow> Inl e
      | Inr output_dim' \<Rightarrow>
     (case slice_from1 out of
        Inl e \<Rightarrow> Inl e
      | Inr pred_probas1 \<Rightarrow>
     (case view_rows pred_probas1 output_dim' of
        Inl e \<Rightarrow> Inl e
      | Inr pred_probas \<Rightarrow>
     (case slice_from1 trg of
        Inl e \<Rightarrow> Inl e
      | Inr trg1 \<Rightarrow>
     (case loss_fn pred_probas (view_flat trg1) of
        Inl e \<Rightarrow> Inl e
      | Inr loss \<Rightarrow>
          evaluate_batches env model loss_fn device rest (loss_eval + item loss, w1))))))))))"

definition evaluate_seq2seq ::
  "'w torch_env \<Rightarrow> ('w, real tensor, 'sd) nn_module \<Rightarrow> 'w dataloader \<Rightarrow> 'w loss_function
   \<Rightarrow> string \<Rightarrow> 'w \<Rightarrow> error + (real \<times> 'w)" where
  "evaluate_seq2seq env model eval_dataloader loss_fn device w =
     (case module_to model device (module_eval model w) of
        Inl e \<Rightarrow> Inl e
      | Inr w1 \<Rightarrow>
          (case eval_dataloader w1 of
             (batches, w2) \<Rightarrow> evaluate_batches env model loss_fn device batches (0, w2)))"



section \<open>The first position and the loss, as the specification words it\<close>

text \<open>
  Two tensors are the same after the first position when they have the same shape and
  the same elements at the positions 1, 2, \<dots> of the first dimension. Two models agree
  when they are the same but for position 0 of the predictions they return; two
  dataloaders agree when they yield the same batches but for position 0 of the targets.
\<close>

definition same_after_first :: "'a tensor \<Rightarrow> 'a tensor \<Rightarrow> bool" where
  "same_after_first x y \<longleftrightarrow>
     shape x = shape y
     \<and> drop (prod_list (tl (shape x))) (elems x) = drop (prod_list (tl (shape y))) (elems y)"

definition models_agree ::
  "('out \<Rightarrow> real tensor) \<Rightarrow> ('w, 'out, 'sd) nn_module \<Rightarrow> ('w, 'out, 'sd) nn_module \<Rightarrow> bool" where
  "models_agree unpack m m' \<longleftrightarrow>
     module_train m = module_train m' \<and> module_eval m = module_eval m'
     \<and> module_to m = module_to m' \<and> state_dict m = state_dict m'
     \<and> (\<forall>w src trg_len.
           (case module_call m w src trg_len of
              Inl e \<Rightarrow> module_call m' w src trg_len = Inl e
            | Inr (out, w1) \<Rightarrow>
                (\<exists>out'. module_call m' w src trg_len = Inr (out', w1)
                    \<and> same_after_first (unpack out) (unpack out'))))"

definition loaders_agree :: "'w dataloader \<Rightarrow> 'w dataloader \<Rightarrow> bool" where
  "loaders_agree dl dl' \<longleftrightarrow>
     (\<forall>w. snd (dl w) = snd (dl' w)
        \<and> list_all2 (\<lambda>b b'. batch_src b = batch_src b'
               \<and> same_after_first (batch_trg b) (batch_trg b')) (fst (dl w)) (fst (dl' w)))"

text \<open>The elements of the positions 1, 2, \<dots> of the first dimension, in order.\<close>

definition positions_from1 :: "'a tensor \<Rightarrow> 'a list" where
  "positions_from1 x = concat (map (position x) [1..<hd (shape x)])"

text \<open>
  Framework objects to run the training and evaluation functions on: a model that
  returns a fixed prediction for two positions, one sentence and three tokens, whose
  position 0 is given; a dataloader of one batch whose target's position 0 is given; a
  loss that adds up what it is given.
\<close>

definition toy_env :: "unit torch_env" where
  "toy_env = \<lparr>tensor_to_raises = (\<lambda>device. None), clip_grad_norm = (\<lambda>c w. Inr w),
     save_raises = (\<lambda>path. None), bleu_score = (\<lambda>candidates references. Inr 0)\<rparr>"

definition toy_model :: "real list \<Rightarrow> (unit, real tensor, nat) nn_module" where
  "toy_model first =
     \<lparr>module_train = (\<lambda>w. w), module_eval = (\<lambda>w. w), module_to = (\<lambda>device w. Inr w),
      module_call = (\<lambda>w src trg_len. Inr (\<lparr>shape = [2, 1, 3], elems = first @ [1, 0, 0]\<rparr>, w)),
      state_dict = (\<lambda>w. 0)\<rparr>"

definition toy_pair_model :: "real list \<Rightarrow> (unit, real tensor \<times> real tensor, nat) nn_module" where
  "toy_pair_model first =
     \<lparr>module_train = (\<lambda>w. w), module_eval = (\<lambda>w. w), module_to = (\<lambda>device w. Inr w),
      module_call = (\<lambda>w src trg_len.
         Inr ((\<lparr>shape = [2, 1, 3], elems = first @ [1, 0, 0]\<rparr>, zeros [1, 1, 2]), w)),
      state_dict = (\<lambda>w. 0)\<rparr>"

definition toy_loader :: "int \<Rightarrow> unit dataloader" where
  "toy_loader first =
     (\<lambda>w. ([\<lparr>batch_src = \<lparr>shape = [1, 1], elems = [7]\<rparr>,
               batch_trg = \<lparr>shape = [2, 1], elems = [first, 4]\<rparr>\<rparr>], w))"

definition toy_loss :: "unit loss_function" where
  "toy_loss = (\<lambda>pred_probas trg.
     Inr \<lparr>item = sum_list (elems pred_probas) + of_int (sum_list (elems trg)),
          backward = (\<lambda>w. Inr w)\<rparr>)"

definition toy_optimizer :: "unit optimizer" where
  "toy_optimizer = \<lparr>zero_grad = (\<lambda>w. w), step = (\<lambda>w. Inr w)\<rparr>"

section \<open>The cells of the introductory notebook that write files\<close>










section \<open>Where an error comes from\<close>







section \<open>The translation of the example batch\<close>







section \<open>Arithmetic of row-major indices\<close>

lemma idx2_less: "i < n \<Longrightarrow> j < m \<Longrightarrow> i * m + j < n * (m::nat)"
proof -
  assume a: "i < n" "j < m"
  have "i * m + j < i * m + m" using a by simp
  also have "\<dots> = (Suc i) * m" by simp
  also have "\<dots> \<le> n * m" using a by (intro mult_le_mono1) simp
  finally show ?thesis .
qed

lemma block0_less: "0 < L \<Longrightarrow> p < n \<Longrightarrow> p < L * (n::nat)"
proof -
  assume a: "0 < L" "p < n"
  have "n \<le> L * n" using a by simp
  with a show ?thesis by (rule_tac less_le_trans)
qed

lemma splice_block:
  assumes "length xs = A" and "length blk = n" and "T + n \<le> A"
  shows "length (take T xs @ blk @ drop (T + n) xs) = A"
    and "n \<le> T \<Longrightarrow> take n (take T xs @ blk @ drop (T + n) xs) = take n xs"
  using assms by (auto simp: min_def)

section \<open>The indexed assignments of the forward pass\<close>

lemma expand_to2_length: "expand_to2 n m v = Inr blk \<Longrightarrow> length blk = n * m"
  by (auto simp: expand_to2_def split: list.splits if_splits)

lemma setitem_scalar_zeros:
  assumes "setitem_scalar (zeros [L, B, V]) 0 2 (1::real) = Inr p"
  shows "shape p = [L, B, V]" "length (elems p) = L * (B * V)" "0 < L" "2 < V"
    "b < B \<Longrightarrow> k < V \<Longrightarrow> elems p ! (b * V + k) = (if k = 2 then 1 else 0)"
proof -
  from assms have c: "0 < L" "2 < V"
    and p: "p = (zeros [L, B, V])\<lparr>elems := map (\<lambda>p. if p div (B * V) = 0 \<and> p mod V = 2 then 1
                                         else elems (zeros [L, B, V]) ! p) [0..<L * B * V]\<rparr>"
    by (auto simp: setitem_scalar_def zeros_def split: if_splits)
  show "shape p = [L, B, V]" "length (elems p) = L * (B * V)" "0 < L" "2 < V"
    using c by (simp_all add: p zeros_def mult.assoc)
  assume bk: "b < B" "k < V"
  have lt: "b * V + k < B * V" using bk by (rule idx2_less)
  have lt2: "b * V + k < L * (B * V)" using c(1) lt by (rule block0_less)
  show "elems p ! (b * V + k) = (if k = 2 then 1 else 0)"
    using lt lt2 bk by (simp add: p zeros_def mult.assoc)
qed

section \<open>Properties of the data setup\<close>

text \<open>
  C10. After the data setup of the BLEU notebook the test split holds the first 100
  examples of the training split (itself already cut to its first 1000 examples); the
  examples the test split was loaded with play no part, and every test example is a
  training example, so that an evaluation on the test split runs on training data.
\<close>

theorem test_split_is_train_prefix:
  "test_examples (take_subset d) = take 100 (take 1000 (train_examples d))
   \<and> test_examples (take_subset d) = take 100 (train_examples (take_subset d))
   \<and> test_examples (take_subset d) = take 100 (train_examples d)
   \<and> set (test_examples (take_subset d)) \<subseteq> set (train_examples (take_subset d))
   \<and> take_subset (d\<lparr>test_examples := other\<rparr>) = take_subset d"
  by (simp add: take_subset_def Let_def set_take_subset_set_take)

theorem test_split_is_train_prefix_witness:
  "test_examples (take_subset \<lparr>train_examples = [1, 2, 3 :: nat], valid_examples = [4],
      test_examples = [5, 6]\<rparr>) = [1, 2, 3]
   \<and> set [1, 2, 3 :: nat] \<subseteq> set (train_examples (take_subset
        \<lparr>train_examples = [1, 2, 3 :: nat], valid_examples = [4], test_examples = [5, 6]\<rparr>))"
  using test_split_is_train_prefix
    [of "\<lparr>train_examples = [1, 2, 3 :: nat], valid_examples = [4], test_examples = [5, 6]\<rparr>"]
  by (simp add: take_subset_def Let_def)

lemma setitem_first_elems:
  assumes "setitem_first x t v = Inr x'" and "shape x = [a, b, c]"
  shows "\<exists>blk. t < a \<and> expand_to2 b c v = Inr blk \<and> shape x' = [a, b, c]
     \<and> elems x' = take (t * (b * c)) (elems x) @ blk @ drop (t * (b * c) + b * c) (elems x)"
  using assms by (auto simp: setitem_first_def split: if_splits sum.splits)

lemma splice_prefix:
  assumes "length xs = A" and "T + n \<le> A"
  shows "take T (take T xs @ blk @ drop (T + n) xs) = take T xs"
    and "length blk = n \<Longrightarrow> take n (drop T (take T xs @ blk @ drop (T + n) xs)) = blk"
  using assms by (auto simp: min_def)

lemma expand_to2_exact:
  assumes "shape v = [n, m]" and "length (elems v) = n * m"
  shows "expand_to2 n m v = Inr (elems v)"
proof -
  have id: "map (\<lambda>p. elems v ! p) [0..<n * m] = elems v"
    using assms(2) map_nth[of "elems v"] by simp
  show ?thesis
  proof (cases "n = 1")
    case n1: True
    show ?thesis
    proof (cases "m = 1")
      case True
      with n1 assms obtain x where "elems v = [x]"
        by (cases "elems v") auto
      then show ?thesis using n1 True assms by (simp add: expand_to2_def)
    next
      case False
      have "map (\<lambda>p. elems v ! (p mod m)) [0..<m] = map (\<lambda>p. elems v ! p) [0..<m]"
        by (rule map_cong) auto
      also have "\<dots> = elems v" using id n1 by simp
      finally show ?thesis using n1 False assms by (simp add: expand_to2_def)
    qed
  next
    case False
    have "map (\<lambda>p. elems v ! (p div m * m + (if m = 1 then 0 else p mod m))) [0..<n * m]
        = map (\<lambda>p. elems v ! p) [0..<n * m]"
      by (rule map_cong) auto
    also have "\<dots> = elems v" using id by simp
    finally show ?thesis using False assms by (simp add: expand_to2_def)
  qed
qed

section \<open>The index of the highest score\<close>

lemma argmax_acc_greatest:
  assumes "bi < length pre" and "best = pre ! bi"
    and "\<forall>j<length pre. pre ! j \<le> best" and "\<forall>j<bi. pre ! j < best"
    and "i = length pre"
  shows "argmax_acc best bi i xs < length (pre @ xs)
    \<and> (\<forall>j<length (pre @ xs). (pre @ xs) ! j \<le> (pre @ xs) ! argmax_acc best bi i xs)
    \<and> (\<forall>j<argmax_acc best bi i xs. (pre @ xs) ! j < (pre @ xs) ! argmax_acc best bi i xs)"
  using assms
proof (induction xs arbitrary: pre best bi i)
  case Nil
  then show ?case by simp
next
  case (Cons x xs)
  show ?case
  proof (cases "best < x")
    case True
    have a: "argmax_acc best bi i (x # xs) = argmax_acc x (length pre) (Suc (length pre)) xs"
      using True Cons.prems(5) by simp
    have "argmax_acc x (length pre) (Suc (length pre)) xs < length ((pre @ [x]) @ xs)
    \<and> (\<forall>j<length ((pre @ [x]) @ xs). ((pre @ [x]) @ xs) ! j \<le> ((pre @ [x]) @ xs) ! argmax_acc x (length pre) (Suc (length pre)) xs)
    \<and> (\<forall>j<argmax_acc x (length pre) (Suc (length pre)) xs. ((pre @ [x]) @ xs) ! j < ((pre @ [x]) @ xs) ! argmax_acc x (length pre) (Suc (length pre)) xs)"
    proof (rule Cons.IH)
      show "length pre < length (pre @ [x])" by simp
      show "x = (pre @ [x]) ! length pre" by simp
      show "\<forall>j<length (pre @ [x]). (pre @ [x]) ! j \<le> x"
        using Cons.prems(3) True by (auto simp: nth_append less_Suc_eq)
      show "\<forall>j<length pre. (pre @ [x]) ! j < x"
        using Cons.prems(3) True by (auto simp: nth_append)
      show "Suc (length pre) = length (pre @ [x])" by simp
    qed
    then show ?thesis unfolding a by simp
  next
    case False
    have a: "argmax_acc best bi i (x # xs) = argmax_acc best bi (Suc (length pre)) xs"
      using False Cons.prems(5) by simp
    have "argmax_acc best bi (Suc (length pre)) xs < length ((pre @ [x]) @ xs)
    \<and> (\<forall>j<length ((pre @ [x]) @ xs). ((pre @ [x]) @ xs) ! j \<le> ((pre @ [x]) @ xs) ! argmax_acc best bi (Suc (length pre)) xs)
    \<and> (\<forall>j<argmax_acc best bi (Suc (length pre)) xs. ((pre @ [x]) @ xs) ! j < ((pre @ [x]) @ xs) ! argmax_acc best bi (Suc (length pre)) xs)"
    proof (rule Cons.IH)
      show "bi < length (pre @ [x])" using Cons.prems(1) by simp
      show "best = (pre @ [x]) ! bi" using Cons.prems(1,2) by (simp add: nth_append)
      show "\<forall>j<length (pre @ [x]). (pre @ [x]) ! j \<le> best"
        using Cons.prems(3) False by (auto simp: nth_append less_Suc_eq)
      show "\<forall>j<bi. (pre @ [x]) ! j < best"
        using Cons.prems(1,4) by (auto simp: nth_append)
      show "Suc (length pre) = length (pre @ [x])" by simp
    qed
    then show ?thesis unfolding a by simp
  qed
qed

lemma argmax_row_greatest:
  assumes "xs \<noteq> []"
  shows "argmax_row xs < length xs
    \<and> (\<forall>j<length xs. xs ! j \<le> xs ! argmax_row xs)
    \<and> (\<forall>j<argmax_row xs. xs ! j < xs ! argmax_row xs)"
proof -
  from assms obtain x ys where xs: "xs = x # ys" by (cases xs) auto
  have "argmax_acc x 0 1 ys < length ([x] @ ys)
    \<and> (\<forall>j<length ([x] @ ys). ([x] @ ys) ! j \<le> ([x] @ ys) ! argmax_acc x 0 1 ys)
    \<and> (\<forall>j<argmax_acc x 0 1 ys. ([x] @ ys) ! j < ([x] @ ys) ! argmax_acc x 0 1 ys)"
    by (rule argmax_acc_greatest) simp_all
  then show ?thesis by (simp add: xs argmax_row_def)
qed

lemma argmax_last_rows:
  assumes "shape p = [B, V]" and "well_formed p" and "0 < V"
  shows "\<exists>best. argmax_last p = Inr best \<and> shape best = [B] \<and> length (elems best) = B
     \<and> (\<forall>b<B. \<exists>k<V. elems best ! b = int k
            \<and> (\<forall>j<V. elems p ! (b * V + j) \<le> elems p ! (b * V + k))
            \<and> (\<forall>j<k. elems p ! (b * V + j) < elems p ! (b * V + k)))"
proof -
  define row where "row b = take V (drop (b * V) (elems p))" for b
  have am: "argmax_last p = Inr \<lparr>shape = [B], elems = map (\<lambda>i. int (argmax_row (row i))) [0..<B]\<rparr>"
    using assms(1,3) by (simp add: argmax_last_def row_def)
  have len: "length (elems p) = B * V" using assms(1,2) by (simp add: well_formed_def)
  have rows: "length (row b) = V \<and> (\<forall>j<V. row b ! j = elems p ! (b * V + j))" if "b < B" for b
  proof -
    have "b * V + V = Suc b * V" by simp
    also have "\<dots> \<le> B * V" using that by (intro mult_le_mono1) simp
    finally have "b * V + V \<le> length (elems p)" using len by simp
    then show ?thesis by (simp add: row_def)
  qed
  have "\<exists>k<V. int (argmax_row (row b)) = int k
            \<and> (\<forall>j<V. elems p ! (b * V + j) \<le> elems p ! (b * V + k))
            \<and> (\<forall>j<k. elems p ! (b * V + j) < elems p ! (b * V + k))" if "b < B" for b
  proof -
    have ne: "row b \<noteq> []" using rows[OF that] assms(3) by auto
    from argmax_row_greatest[OF ne] rows[OF that]
    show ?thesis by (intro exI[of _ "argmax_row (row b)"]) auto
  qed
  then show ?thesis by (simp add: am)
qed

section \<open>The decoding loop\<close>

lemma decode_loop_greedy:
  assumes "decode_loop dec enc [s..<L] (pp, an, idx, h, w) = Inr (pp', an', idx', h', w')"
    and "shape pp = [a, b, c]" and "length (elems pp) = a * (b * c)" and "s \<le> L"
  shows "\<exists>ps. greedy_steps dec enc (L - s) (idx, h, w) = Inr (ps, (idx', h', w'))
     \<and> length ps = L - s
     \<and> shape pp' = [a, b, c] \<and> length (elems pp') = a * (b * c)
     \<and> take (s * (b * c)) (elems pp') = take (s * (b * c)) (elems pp)
     \<and> (\<forall>t. s \<le> t \<and> t < L \<longrightarrow>
           expand_to2 b c (ps ! (t - s)) = Inr (take (b * c) (drop (t * (b * c)) (elems pp'))))"
  using assms
proof (induction "L - s" arbitrary: s pp an idx h w)
  case 0
  then have "s = L" by simp
  with "0.prems" show ?case by auto
next
  case (Suc k)
  define n where "n = b * c"
  from Suc.hyps(2) have sL: "s < L" and k: "k = L - Suc s" by simp_all
  then have up: "[s..<L] = s # [Suc s..<L]" by (simp add: upt_conv_Cons)
  from Suc.prems(1) up obtain p_t h1 a1 w1 pp1 idx1 an1 where
    d: "dec w idx h enc = Inr ((p_t, h1, a1), w1)"
    and s1: "setitem_first pp s p_t = Inr pp1"
    and am: "argmax_last p_t = Inr idx1"
    and rest: "decode_loop dec enc [Suc s..<L] (pp1, an1, idx1, h1, w1) = Inr (pp', an', idx', h', w')"
    by (auto split: sum.splits)
  from setitem_first_elems[OF s1 Suc.prems(2)] obtain blk where
    sa: "s < a" and blk: "expand_to2 b c p_t = Inr blk" and sh1: "shape pp1 = [a, b, c]"
    and el1: "elems pp1 = take (s * n) (elems pp) @ blk @ drop (s * n + n) (elems pp)"
    unfolding n_def by blast
  have lb: "length blk = n" using blk by (simp add: expand_to2_length n_def)
  have len: "length (elems pp) = a * n" using Suc.prems(3) by (simp add: n_def)
  have le: "s * n + n \<le> a * n"
  proof -
    have "s * n + n = Suc s * n" by simp
    also have "\<dots> \<le> a * n" using sa by (intro mult_le_mono1) simp
    finally show ?thesis .
  qed
  have len1: "length (elems pp1) = a * (b * c)"
    using splice_block(1)[OF len lb le] by (simp add: el1 n_def)
  have pre1: "take (s * n) (elems pp1) = take (s * n) (elems pp)"
    using splice_prefix(1)[OF len le] by (simp add: el1)
  have blk1: "take n (drop (s * n) (elems pp1)) = blk"
    using splice_prefix(2)[OF len le lb] by (simp add: el1)
  from Suc.hyps(1)[OF k rest sh1 len1] sL obtain ps where
    g: "greedy_steps dec enc (L - Suc s) (idx1, h1, w1) = Inr (ps, (idx', h', w'))"
    and lps: "length ps = L - Suc s"
    and sh': "shape pp' = [a, b, c]" and len': "length (elems pp') = a * (b * c)"
    and pre': "take (Suc s * n) (elems pp') = take (Suc s * n) (elems pp1)"
    and blocks: "\<forall>t. Suc s \<le> t \<and> t < L \<longrightarrow>
           expand_to2 b c (ps ! (t - Suc s)) = Inr (take n (drop (t * n) (elems pp')))"
    unfolding n_def by auto
  have Ls: "L - s = Suc (L - Suc s)" using sL by simp
  have g': "greedy_steps dec enc (L - s) (idx, h, w) = Inr (p_t # ps, (idx', h', w'))"
    by (simp add: Ls d am g)
  have pre: "take (s * n) (elems pp') = take (s * n) (elems pp)"
  proof -
    have "take (s * n) (elems pp') = take (s * n) (take (Suc s * n) (elems pp'))" by simp
    also have "\<dots> = take (s * n) (take (Suc s * n) (elems pp1))" by (simp only: pre')
    also have "\<dots> = take (s * n) (elems pp1)" by simp
    finally show ?thesis using pre1 by simp
  qed
  have here: "take n (drop (s * n) (elems pp')) = blk"
  proof -
    have "take n (drop (s * n) (elems pp')) = drop (s * n) (take (s * n + n) (elems pp'))"
      by (simp add: drop_take)
    also have "\<dots> = drop (s * n) (take (s * n + n) (elems pp1))"
      using pre' by (simp add: add.commute)
    also have "\<dots> = take n (drop (s * n) (elems pp1))" by (simp add: drop_take)
    finally show ?thesis using blk1 by simp
  qed
  have all: "expand_to2 b c ((p_t # ps) ! (t - s)) = Inr (take n (drop (t * n) (elems pp')))"
    if "s \<le> t" "t < L" for t
  proof (cases "t = s")
    case True
    then show ?thesis using blk here by simp
  next
    case False
    with that have "Suc s \<le> t" by simp
    moreover from this have "(p_t # ps) ! (t - s) = ps ! (t - Suc s)"
      by (simp add: Suc_diff_le)
    ultimately show ?thesis using blocks that by simp
  qed
  show ?case
    using g' lps Ls sh' len' pre all unfolding n_def by auto
qed

text \<open>
  C1. Whenever the forward pass returns, it has applied the encoder to \<open>src\<close> once
  and then run \<open>trg_len - 1\<close> greedy decoding steps from the \<open><sos>\<close> input (index
  2 for every sentence), the encoder's final hidden state and the encoder's outputs: one
  decoder call per step \<open>t = 1, \<dots>, trg_len - 1\<close>, the argmax of the step's prediction
  being the next step's input (for each sentence the first index whose score no other
  score of the sentence exceeds), and the framework state after the last step is the one
  returned. Position \<open>t\<close> of the output tensor holds the prediction of step \<open>t\<close>,
  broadcast to \<open>[batch, vocabulary]\<close> by the assignment: it is the prediction itself
  when that has this shape.
\<close>

theorem forward_is_greedy_decoding:
  assumes "Seq2Seq_forward self w src trg_len = Inr ((pred_probas, attn), w')"
    and "1 \<le> trg_len"
  shows "\<exists>enc_outputs context w1 predictions last_input last_hidden.
      encoder self w src = Inr ((enc_outputs, context), w1)
    \<and> greedy_steps (decoder self) enc_outputs (trg_len - 1)
          (sos_input (last (shape src)), context, w1)
        = Inr (predictions, (last_input, last_hidden, w'))
    \<and> length predictions = trg_len - 1
    \<and> (\<forall>t. 1 \<le> t \<and> t < trg_len \<longrightarrow>
          expand_to2 (last (shape src)) (trg_vocab_size self) (predictions ! (t - 1))
            = Inr (position pred_probas t)
          \<and> (shape (predictions ! (t - 1)) = [last (shape src), trg_vocab_size self]
               \<and> well_formed (predictions ! (t - 1))
             \<longrightarrow> position pred_probas t = elems (predictions ! (t - 1))))
    \<and> (\<forall>p. shape p = [last (shape src), trg_vocab_size self] \<and> well_formed p
            \<and> 0 < trg_vocab_size self \<longrightarrow>
          (\<exists>best. argmax_last p = Inr best \<and> shape best = [last (shape src)]
             \<and> (\<forall>b<last (shape src). \<exists>k<trg_vocab_size self. elems best ! b = int k
                   \<and> (\<forall>j<trg_vocab_size self.
                         at2 p b j \<le> at2 p b k))))"
proof -
  define B where "B = last (shape src)"
  define V where "V = trg_vocab_size self"
  from assms(1) obtain p0 S enc_outputs hidden w1 idx hid where
    sl: "shape_last src = Inr B"
    and p0: "setitem_scalar (zeros [trg_len, B, V]) 0 2 1 = Inr p0"
    and en: "encoder self w src = Inr ((enc_outputs, hidden), w1)"
    and loop: "decode_loop (decoder self) enc_outputs [1..<trg_len]
        (p0, zeros [B, S, trg_len], sos_input B, hidden, w1)
        = Inr (pred_probas, attn, idx, hid, w')"
    unfolding Seq2Seq_forward_def B_def V_def sos_input_def
    by (auto simp: shape_last_def split: sum.splits list.splits)
  note z = setitem_scalar_zeros[OF p0]
  from decode_loop_greedy[OF loop z(1) z(2) assms(2)] obtain ps where
    g: "greedy_steps (decoder self) enc_outputs (trg_len - 1) (sos_input B, hidden, w1)
         = Inr (ps, (idx, hid, w'))"
    and l: "length ps = trg_len - 1"
    and sh: "shape pred_probas = [trg_len, B, V]"
    and bl: "\<forall>t. 1 \<le> t \<and> t < trg_len \<longrightarrow>
           expand_to2 B V (ps ! (t - 1)) = Inr (take (B * V) (drop (t * (B * V)) (elems pred_probas)))"
    by auto
  have pos: "position pred_probas t = take (B * V) (drop (t * (B * V)) (elems pred_probas))" for t
    by (simp add: position_def sh)
  have "expand_to2 B V (ps ! (t - 1)) = Inr (position pred_probas t)
          \<and> (shape (ps ! (t - 1)) = [B, V] \<and> well_formed (ps ! (t - 1))
             \<longrightarrow> position pred_probas t = elems (ps ! (t - 1)))"
    if "1 \<le> t \<and> t < trg_len" for t
  proof -
    have e: "expand_to2 B V (ps ! (t - 1)) = Inr (position pred_probas t)"
      using bl that pos by simp
    moreover have "position pred_probas t = elems (ps ! (t - 1))"
      if "shape (ps ! (t - 1)) = [B, V]" "well_formed (ps ! (t - 1))"
    proof -
      have "expand_to2 B V (ps ! (t - 1)) = Inr (elems (ps ! (t - 1)))"
        using that by (intro expand_to2_exact) (simp_all add: well_formed_def)
      with e show ?thesis by simp
    qed
    ultimately show ?thesis by simp
  qed
  then have main: "\<forall>t. 1 \<le> t \<and> t < trg_len \<longrightarrow>
          expand_to2 B V (ps ! (t - 1)) = Inr (position pred_probas t)
          \<and> (shape (ps ! (t - 1)) = [B, V] \<and> well_formed (ps ! (t - 1))
             \<longrightarrow> position pred_probas t = elems (ps ! (t - 1)))"
    by blast
  have am: "\<exists>best. argmax_last p = Inr best \<and> shape best = [B]
             \<and> (\<forall>b<B. \<exists>k<V. elems best ! b = int k
                   \<and> (\<forall>j<V. at2 p b j \<le> at2 p b k))"
    if "shape p = [B, V] \<and> well_formed p \<and> 0 < V" for p
  proof -
    from that argmax_last_rows[of p B V] obtain best where
      b: "argmax_last p = Inr best" "shape best = [B]"
      "\<forall>b<B. \<exists>k<V. elems best ! b = int k
            \<and> (\<forall>j<V. elems p ! (b * V + j) \<le> elems p ! (b * V + k))"
      by blast
    have "at2 p b j = elems p ! (b * V + j)" for b j
      using that by (simp add: at2_def)
    with b show ?thesis by simp
  qed
  show ?thesis
    unfolding B_def[symmetric] V_def[symmetric]
    using en g l main am by blast
qed

theorem forward_is_greedy_decoding_witness:
  "Seq2Seq_forward stub_model () \<lparr>shape = [2, 1], elems = [5, 6]\<rparr> 2
     = Inr ((\<lparr>shape = [2, 1, 3], elems = [0, 0, 1, 0, 1, 0]\<rparr>,
          \<lparr>shape = [1, 2, 2], elems = [0, 1, 0, 0]\<rparr>), ())
   \<and> (\<exists>predictions last_input.
       greedy_steps (decoder stub_model) () 1 (sos_input 1, (), ())
         = Inr (predictions, (last_input, (), ()))
       \<and> position \<lparr>shape = [2, 1, 3], elems = [0, 0, 1, 0, 1, 0 :: real]\<rparr> 1 = elems (predictions ! 0))"
proof -
  have run: "Seq2Seq_forward stub_model () \<lparr>shape = [2, 1], elems = [5, 6]\<rparr> 2
     = Inr ((\<lparr>shape = [2, 1, 3], elems = [0, 0, 1, 0, 1, 0]\<rparr>,
          \<lparr>shape = [1, 2, 2], elems = [0, 1, 0, 0]\<rparr>), ())"
    by (simp add: Seq2Seq_forward_def stub_model_def shape_last_def shape_first_def zeros_def
      setitem_scalar_def setitem_first_def setitem_last_def expand_to2_def squeeze_all_def
      argmax_last_def argmax_row_def upt_rec[of _ "numeral _"] upt_rec[of _ "Suc _"])
  have g: "greedy_steps (decoder stub_model) () 1 (sos_input 1, (), ())
         = Inr ([\<lparr>shape = [1, 3], elems = [0, 1, 0]\<rparr>], (\<lparr>shape = [1], elems = [1]\<rparr>, (), ()))"
    by (simp add: stub_model_def argmax_last_def argmax_row_def)
  from forward_is_greedy_decoding[OF run] g
  have "position \<lparr>shape = [2, 1, 3], elems = [0, 0, 1, 0, 1, 0 :: real]\<rparr> 1
     = elems ([\<lparr>shape = [1, 3], elems = [0, 1, 0 :: real]\<rparr>] ! 0)"
    by (auto simp: stub_model_def well_formed_def)
  with run g show ?thesis by simp
qed

section \<open>The first position of the prediction tensor\<close>

text \<open>
  C8. Whenever the forward pass returns (for any \<open>src\<close>, any \<open>trg_len \<ge> 1\<close>, any
  encoder and decoder and any state of the framework's parameters and random generator),
  position 0 of the prediction tensor holds, for every sentence of the batch, 1 at
  vocabulary index 2 and 0 at every other index.
\<close>

theorem first_position_is_sos:
  assumes "Seq2Seq_forward self w src trg_len = Inr ((pred_probas, attn), w')"
    and "1 \<le> trg_len"
  shows "shape pred_probas = [trg_len, last (shape src), trg_vocab_size self]
    \<and> (\<forall>b<last (shape src). \<forall>k<trg_vocab_size self.
          at3 pred_probas 0 b k = (if k = 2 then 1 else 0))"
proof -
  define B where "B = last (shape src)"
  define V where "V = trg_vocab_size self"
  from assms(1) obtain p0 enc_outputs hidden w1 attn0 idx hid where
    p0: "setitem_scalar (zeros [trg_len, B, V]) 0 2 1 = Inr p0"
    and loop: "decode_loop (decoder self) enc_outputs [1..<trg_len]
        (p0, attn0, \<lparr>shape = [B], elems = replicate B 2\<rparr>, hidden, w1)
        = Inr (pred_probas, attn, idx, hid, w')"
    unfolding Seq2Seq_forward_def B_def V_def
    by (auto simp: shape_last_def split: sum.splits list.splits)
  note z = setitem_scalar_zeros[OF p0]
  from decode_loop_greedy[OF loop z(1) z(2) assms(2)]
  have sh: "shape pred_probas = [trg_len, B, V]"
    and pre: "take (B * V) (elems pred_probas) = take (B * V) (elems p0)"
    by auto
  have "at3 pred_probas 0 b k = (if k = 2 then 1 else 0)" if "b < B" "k < V" for b k
  proof -
    have lt: "b * V + k < B * V" using that by (rule idx2_less)
    have "elems pred_probas ! (b * V + k) = take (B * V) (elems pred_probas) ! (b * V + k)"
      using lt by simp
    also have "\<dots> = elems p0 ! (b * V + k)" using pre lt by simp
    also have "\<dots> = (if k = 2 then 1 else 0)" using z(5)[OF that] .
    finally show ?thesis using sh by (simp add: at3_def)
  qed
  then show ?thesis using sh by (simp add: B_def V_def)
qed

theorem first_position_is_sos_witness:
  "Seq2Seq_forward stub_model () \<lparr>shape = [2, 1], elems = [5, 6]\<rparr> 2
     = Inr ((\<lparr>shape = [2, 1, 3], elems = [0, 0, 1, 0, 1, 0]\<rparr>,
          \<lparr>shape = [1, 2, 2], elems = [0, 1, 0, 0]\<rparr>), ())
   \<and> at3 \<lparr>shape = [2, 1, 3], elems = [0, 0, 1, 0, 1, 0 :: real]\<rparr> 0 0 0 = 0
   \<and> at3 \<lparr>shape = [2, 1, 3], elems = [0, 0, 1, 0, 1, 0 :: real]\<rparr> 0 0 1 = 0
   \<and> at3 \<lparr>shape = [2, 1, 3], elems = [0, 0, 1, 0, 1, 0 :: real]\<rparr> 0 0 2 = 1"
proof -
  have run: "Seq2Seq_forward stub_model () \<lparr>shape = [2, 1], elems = [5, 6]\<rparr> 2
     = Inr ((\<lparr>shape = [2, 1, 3], elems = [0, 0, 1, 0, 1, 0]\<rparr>,
          \<lparr>shape = [1, 2, 2], elems = [0, 1, 0, 0]\<rparr>), ())"
    by (simp add: Seq2Seq_forward_def stub_model_def shape_last_def shape_first_def zeros_def
      setitem_scalar_def setitem_first_def setitem_last_def expand_to2_def squeeze_all_def
      argmax_last_def argmax_row_def upt_rec[of _ "numeral _"] upt_rec[of _ "Suc _"])
  from first_position_is_sos[OF run]
  have "\<forall>k<3. at3 \<lparr>shape = [2, 1, 3], elems = [0, 0, 1, 0, 1, 0 :: real]\<rparr> 0 0 k
           = (if k = 2 then 1 else 0)"
    by (simp add: stub_model_def)
  then have k: "k < 3 \<Longrightarrow> at3 \<lparr>shape = [2, 1, 3], elems = [0, 0, 1, 0, 1, 0 :: real]\<rparr> 0 0 k
           = (if k = 2 then 1 else 0)" for k
    by blast
  have "at3 \<lparr>shape = [2, 1, 3], elems = [0, 0, 1, 0, 1, 0 :: real]\<rparr> 0 0 0 = 0
   \<and> at3 \<lparr>shape = [2, 1, 3], elems = [0, 0, 1, 0, 1, 0 :: real]\<rparr> 0 0 1 = 0
   \<and> at3 \<lparr>shape = [2, 1, 3], elems = [0, 0, 1, 0, 1, 0 :: real]\<rparr> 0 0 2 = 1"
    using k[of 0] k[of 1] k[of 2] by simp
  with run show ?thesis by simp
qed

section \<open>Element access of the framework operations\<close>



lemma tab3_shape [simp]: "shape (tab3 d0 d1 d2 f) = [d0, d1, d2]"
  by (simp add: tab3_def)


lemma tab3_well_formed: "well_formed (tab3 d0 d1 d2 f)"
  by (simp add: tab3_def well_formed_def mult.assoc)

lemma permute102_Inr:
  assumes "permute102 x = Inr y"
  shows "\<exists>a b c. shape x = [a, b, c] \<and> y = tab3 b a c (\<lambda>i j k. at3 x j i k)"
  using assms by (auto simp: permute102_def split: list.splits)

lemma bmm_Inr:
  assumes "bmm x y = Inr z"
  shows "\<exists>b n m p. shape x = [b, n, m] \<and> shape y = [b, m, p]
     \<and> z = tab3 b n p (\<lambda>i j k. sum_list (map (\<lambda>s. at3 x i j s * at3 y i s k) [0..<m]))"
  using assms by (auto simp: bmm_def split: list.splits if_splits)


lemma unsqueeze1_Inr:
  assumes "unsqueeze x 1 = Inr y" and "shape y = [b, n, m]"
  shows "n = 1 \<and> shape x = [b, m] \<and> elems y = elems x"
proof -
  from assms(1) have l: "1 \<le> length (shape x)"
    and y: "y = x\<lparr>shape := take 1 (shape x) @ [1] @ drop 1 (shape x)\<rparr>"
    by (auto simp: unsqueeze_def split: if_splits)
  from l obtain d ds where s: "shape x = d # ds" by (cases "shape x") auto
  with y assms(2) show ?thesis by auto
qed


section \<open>The attention weights\<close>




section \<open>A decoder call\<close>

lemma Decoder_forward_steps:
  assumes "Decoder_forward self w input_idx input_hidden enc_outputs
             = Inr ((pred_proba, hidden, a), w')"
  shows "\<exists>emb y0 y a0 enc1 weighted0 weighted rnn_input output.
      embedding_layer self input_idx = Inr emb
    \<and> dropout_layer self w emb = (y0, w')
    \<and> unsqueeze y0 0 = Inr y
    \<and> Attention_forward (attention self) input_hidden enc_outputs = Inr a0
    \<and> unsqueeze a0 1 = Inr a
    \<and> permute102 enc_outputs = Inr enc1
    \<and> bmm a enc1 = Inr weighted0
    \<and> permute102 weighted0 = Inr weighted
    \<and> cat2 y weighted = Inr rnn_input
    \<and> gru self rnn_input input_hidden = Inr (output, hidden)"
  using assms unfolding Decoder_forward_def
  by (auto split: sum.splits prod.splits)

lemma Decoder_forward_shapes:
  assumes "Decoder_forward self w input_idx input_hidden enc_outputs
             = Inr ((pred_proba, hidden, a), w')"
  shows "\<exists>S B He weights. shape enc_outputs = [S, B, He]
    \<and> Attention_forward (attention self) input_hidden enc_outputs = Inr weights
    \<and> shape weights = [B, S] \<and> shape a = [B, 1, S] \<and> elems a = elems weights"
proof -
  from Decoder_forward_steps[OF assms] obtain a0 enc1 weighted0 where
    at: "Attention_forward (attention self) input_hidden enc_outputs = Inr a0"
    and ua: "unsqueeze a0 1 = Inr a"
    and pe: "permute102 enc_outputs = Inr enc1"
    and bm: "bmm a enc1 = Inr weighted0"
    by blast
  from permute102_Inr[OF pe] obtain S B He where
    se: "shape enc_outputs = [S, B, He]" and e1: "shape enc1 = [B, S, He]"
    by auto
  from bmm_Inr[OF bm] e1 obtain n where sa: "shape a = [B, n, S]" by auto
  from unsqueeze1_Inr[OF ua sa] have "n = 1" "shape a0 = [B, S]" "elems a = elems a0"
    by auto
  with se at sa show ?thesis by auto
qed



lemma forward_attention_model_steps:
  assumes "Seq2Seq_forward (attention_model enc_layers out_dim dec_layers) w src trg_len
             = Inr ((pred_probas, attn), w')"
  shows "\<exists>enc_outputs context w1 idx hid p0.
      Encoder_forward enc_layers w src = Inr ((enc_outputs, context), w1)
    \<and> setitem_scalar (zeros [trg_len, last (shape src), out_dim]) 0 2 1 = Inr p0
    \<and> decode_loop (Decoder_forward dec_layers) enc_outputs [1..<trg_len]
         (p0, zeros [last (shape src), hd (shape src), trg_len],
          sos_input (last (shape src)), context, w1)
        = Inr (pred_probas, attn, idx, hid, w')"
  using assms
  unfolding Seq2Seq_forward_def attention_model_def Seq2Seq_init_def sos_input_def
  by (auto simp: shape_last_def shape_first_def split: sum.splits list.splits)


lemmas run_defs = Seq2Seq_forward_def attention_model_def Seq2Seq_init_def Encoder_forward_def
  Decoder_forward_def Attention_forward_def zero_encoder_def zero_decoder_def
  shape_last_def shape_first_def zeros_def sos_input_def
  setitem_scalar_def setitem_first_def setitem_last_def expand_to2_def squeeze_all_def
  argmax_last_def argmax_row_def tab3_def unsqueeze_def squeeze_dim_def repeat3_def
  permute102_def cat2_def bmm_def softmax_dim1_def at3_def
  upt_rec[of _ "numeral _"] upt_rec[of _ "Suc _"]


section \<open>A source batch with a single position\<close>

text \<open>
  The decoder returns the attention weights as \<open>[B, 1, S]\<close>, and the forward pass
  stores \<^verbatim>\<open>a.squeeze()\<close> in \<^verbatim>\<open>attn[:, :, t]\<close>, a slice of shape \<open>[B, S]\<close>. For
  \<open>S = 1\<close> the squeeze removes the source dimension as well, and the remaining shape
  \<open>[B]\<close> cannot be broadcast to \<open>[B, 1]\<close> unless \<open>B = 1\<close>.
\<close>

lemma squeeze_single_position:
  assumes "shape a = [B, 1, 1]" and "2 \<le> B" and "1 < L"
  shows "setitem_last (zeros [B, 1, L]) 1 (squeeze_all a) = Inl RuntimeError"
  using assms by (simp add: setitem_last_def squeeze_all_def expand_to2_def zeros_def)

lemma single_position_never_returns:
  assumes "shape src = [1, B]" and "2 \<le> B" and "2 \<le> trg_len"
    and enc_shape: "\<And>eo h w1. Encoder_forward enc_layers w src = Inr ((eo, h), w1)
                      \<Longrightarrow> \<exists>He. shape eo = [1, B, He]"
  shows "\<exists>e. Seq2Seq_forward (attention_model enc_layers out_dim dec_layers) w src trg_len = Inl e"
proof (cases "Seq2Seq_forward (attention_model enc_layers out_dim dec_layers) w src trg_len")
  case (Inl e)
  then show ?thesis by blast
next
  case (Inr r)
  obtain pred_probas attn w' where r: "r = ((pred_probas, attn), w')"
    by (cases r) auto
  from forward_attention_model_steps[OF Inr[unfolded r]] assms(1)
  obtain enc_outputs ctx w1 idx hid p0 where
    en: "Encoder_forward enc_layers w src = Inr ((enc_outputs, ctx), w1)"
    and loop: "decode_loop (Decoder_forward dec_layers) enc_outputs [1..<trg_len]
         (p0, zeros [B, 1, trg_len], sos_input B, ctx, w1)
        = Inr (pred_probas, attn, idx, hid, w')"
    by auto
  from enc_shape[OF en] obtain He where se: "shape enc_outputs = [1, B, He]" by blast
  have up: "[1..<trg_len] = 1 # [Suc 1..<trg_len]"
    using assms(3) by (simp add: upt_conv_Cons)
  from loop[unfolded up] obtain p h1 a w2 where
    d: "Decoder_forward dec_layers w1 (sos_input B) ctx enc_outputs = Inr ((p, h1, a), w2)"
    and sl: "\<exists>x. setitem_last (zeros [B, 1, trg_len]) 1 (squeeze_all a) = Inr x"
    by (auto split: sum.splits)
  from Decoder_forward_shapes[OF d] se have "shape a = [B, 1, 1]" by auto
  from squeeze_single_position[OF this assms(2)] assms(3) sl
  show ?thesis by simp
qed

text \<open>
  C4. On a source batch with one position and two sentences and a target length of 2, the
  forward pass of the attention model raises at the first decoding step instead of
  returning a prediction tensor of shape \<open>[2, 2, 3]\<close>.
\<close>

theorem forward_fails_on_single_source_position:
  "Seq2Seq_forward (attention_model zero_encoder 3 zero_decoder) ()
      \<lparr>shape = [1, 2], elems = [4, 5]\<rparr> 2 = Inl RuntimeError"
  by (simp add: run_defs)

section \<open>The loss of a batch\<close>

lemma same_after_first_slice:
  assumes "same_after_first x y"
  shows "shape_last x = shape_last y" "shape_first x = shape_first y"
    "slice_from1 x = slice_from1 y"
  using assms
  by (auto simp: same_after_first_def shape_last_def shape_first_def slice_from1_def
      split: list.splits)

lemma models_agree_call:
  assumes "models_agree unpack m m'"
  shows "module_call m w src trg_len = Inl e \<Longrightarrow> module_call m' w src trg_len = Inl e"
    and "module_call m w src trg_len = Inr (out, w1) \<Longrightarrow>
         \<exists>out'. module_call m' w src trg_len = Inr (out', w1)
                    \<and> same_after_first (unpack out) (unpack out')"
proof -
  from assms have c: "case module_call m w src trg_len of
              Inl e \<Rightarrow> module_call m' w src trg_len = Inl e
            | Inr (out, w1) \<Rightarrow>
                (\<exists>out'. module_call m' w src trg_len = Inr (out', w1)
                    \<and> same_after_first (unpack out) (unpack out'))"
    unfolding models_agree_def by blast
  show "module_call m w src trg_len = Inl e \<Longrightarrow> module_call m' w src trg_len = Inl e"
    using c by simp
  show "module_call m w src trg_len = Inr (out, w1) \<Longrightarrow>
         \<exists>out'. module_call m' w src trg_len = Inr (out', w1)
                    \<and> same_after_first (unpack out) (unpack out')"
    using c by simp
qed

lemma train_batches_agree:
  assumes "models_agree unpack m m'"
    and "list_all2 (\<lambda>b b'. batch_src b = batch_src b'
               \<and> same_after_first (batch_trg b) (batch_trg b')) bs bs'"
  shows "train_batches env unpack m loss_fn optimizer device bs acc
       = train_batches env unpack m' loss_fn optimizer device bs' acc"
  using assms(2)
proof (induction bs bs' arbitrary: acc rule: list_all2_induct)
  case Nil
  then show ?case by simp
next
  case (Cons b bs b' bs')
  obtain l w where acc: "acc = (l, w)" by (cases acc) auto
  from Cons.hyps(1) have sb: "batch_src b = batch_src b'"
    and tb: "same_after_first (batch_trg b) (batch_trg b')" by auto
  note t = same_after_first_slice[OF tb]
  show ?case
  proof (cases "tensor_to_raises env device")
    case (Some e)
    then show ?thesis by (simp add: acc tensor_to_def)
  next
    case None
    show ?thesis
    proof (cases "shape_first (batch_trg b')")
      case (Inl e)
      then show ?thesis using None t by (simp add: acc tensor_to_def)
    next
      case (Inr trg_len)
      show ?thesis
      proof (cases "module_call m (zero_grad optimizer w) (batch_src b') trg_len")
        case (Inl e)
        with assms(1) have "module_call m' (zero_grad optimizer w) (batch_src b') trg_len = Inl e"
          by (rule models_agree_call(1))
        then show ?thesis using None t Inr Inl sb by (simp add: acc tensor_to_def)
      next
        case r: (Inr r)
        obtain out w1 where r': "r = (out, w1)" by (cases r) auto
        from models_agree_call(2)[OF assms(1) r[unfolded r']] obtain out' where
          c': "module_call m' (zero_grad optimizer w) (batch_src b') trg_len = Inr (out', w1)"
          and so: "same_after_first (unpack out) (unpack out')"
          by blast
        note u = same_after_first_slice[OF so]
        show ?thesis
          using None t Inr r r' c' u sb Cons.IH
          by (simp add: acc tensor_to_def split: sum.splits)
      qed
    qed
  qed
qed

lemma evaluate_batches_agree:
  assumes "models_agree (\<lambda>p. p) m m'"
    and "list_all2 (\<lambda>b b'. batch_src b = batch_src b'
               \<and> same_after_first (batch_trg b) (batch_trg b')) bs bs'"
  shows "evaluate_batches env m loss_fn device bs acc
       = evaluate_batches env m' loss_fn device bs' acc"
  using assms(2)
proof (induction bs bs' arbitrary: acc rule: list_all2_induct)
  case Nil
  then show ?case by simp
next
  case (Cons b bs b' bs')
  obtain l w where acc: "acc = (l, w)" by (cases acc) auto
  from Cons.hyps(1) have sb: "batch_src b = batch_src b'"
    and tb: "same_after_first (batch_trg b) (batch_trg b')" by auto
  note t = same_after_first_slice[OF tb]
  show ?case
  proof (cases "tensor_to_raises env device")
    case (Some e)
    then show ?thesis by (simp add: acc tensor_to_def)
  next
    case None
    show ?thesis
    proof (cases "shape_first (batch_trg b')")
      case (Inl e)
      then show ?thesis using None t by (simp add: acc tensor_to_def)
    next
      case (Inr trg_len)
      show ?thesis
      proof (cases "module_call m w (batch_src b') trg_len")
        case (Inl e)
        with assms(1) have "module_call m' w (batch_src b') trg_len = Inl e"
          by (rule models_agree_call(1))
        then show ?thesis using None t Inr Inl sb by (simp add: acc tensor_to_def)
      next
        case r: (Inr r)
        obtain out w1 where r': "r = (out, w1)" by (cases r) auto
        from models_agree_call(2)[OF assms(1) r[unfolded r']] obtain out' where
          c': "module_call m' w (batch_src b') trg_len = Inr (out', w1)"
          and so: "same_after_first out out'"
          by blast
        note u = same_after_first_slice[OF so]
        show ?thesis
          using None t Inr r r' c' u sb Cons.IH
          by (simp add: acc tensor_to_def split: sum.splits)
      qed
    qed
  qed
qed

lemma loaders_agree_batches:
  assumes "loaders_agree dl dl'" and "dl w = (bs, w0)"
  shows "\<exists>bs'. dl' w = (bs', w0) \<and> list_all2 (\<lambda>b b'. batch_src b = batch_src b'
               \<and> same_after_first (batch_trg b) (batch_trg b')) bs bs'"
proof -
  from assms(1) have "snd (dl w) = snd (dl' w)
        \<and> list_all2 (\<lambda>b b'. batch_src b = batch_src b'
               \<and> same_after_first (batch_trg b) (batch_trg b')) (fst (dl w)) (fst (dl' w))"
    unfolding loaders_agree_def by blast
  with assms(2) show ?thesis by (cases "dl' w") auto
qed

lemma training_seq2seq_epochs_agree:
  assumes "models_agree (\<lambda>p. p) m m'" and "loaders_agree dl dl'"
  shows "training_seq2seq_epochs env m dl loss_fn optimizer device epochs acc fs
       = training_seq2seq_epochs env m' dl' loss_fn optimizer device epochs acc fs"
proof (induction epochs arbitrary: acc fs)
  case Nil
  then show ?case by simp
next
  case (Cons epoch epochs)
  obtain l w where acc: "acc = (l, w)" by (cases acc) auto
  obtain bs w0 where d: "dl w = (bs, w0)" by (cases "dl w") auto
  from loaders_agree_batches[OF assms(2) d] obtain bs' where
    d': "dl' w = (bs', w0)"
    and a: "list_all2 (\<lambda>b b'. batch_src b = batch_src b'
               \<and> same_after_first (batch_trg b) (batch_trg b')) bs bs'"
    by blast
  have sd: "state_dict m = state_dict m'" using assms(1) by (simp add: models_agree_def)
  show ?case
    using train_batches_agree[OF assms(1) a] Cons.IH
    by (simp add: acc d d' sd split: sum.splits)
qed

lemma training_validation_bleu_epochs_agree:
  assumes "models_agree fst m m'" and "loaders_agree dl dl'"
  shows "training_validation_bleu_epochs env m dl loss_fn optimizer device epochs acc
       = training_validation_bleu_epochs env m' dl' loss_fn optimizer device epochs acc"
proof (induction epochs arbitrary: acc)
  case Nil
  then show ?case by simp
next
  case (Cons epoch epochs)
  obtain l w where acc: "acc = (l, w)" by (cases acc) auto
  obtain bs w0 where d: "dl w = (bs, w0)" by (cases "dl w") auto
  from loaders_agree_batches[OF assms(2) d] obtain bs' where
    d': "dl' w = (bs', w0)"
    and a: "list_all2 (\<lambda>b b'. batch_src b = batch_src b'
               \<and> same_after_first (batch_trg b) (batch_trg b')) bs bs'"
    by blast
  show ?case
    using train_batches_agree[OF assms(1) a] Cons.IH
    by (simp add: acc d d' split: sum.splits)
qed

lemma concat_blocks:
  assumes "length xs = L * n" and "s \<le> L"
  shows "concat (map (\<lambda>t. take n (drop (t * n) xs)) [s..<L]) = drop (s * n) xs"
  using assms(2)
proof (induction "L - s" arbitrary: s)
  case 0
  then show ?case using assms(1) by simp
next
  case (Suc k)
  then have sL: "s < L" and k: "k = L - Suc s" by simp_all
  have "concat (map (\<lambda>t. take n (drop (t * n) xs)) [s..<L])
      = take n (drop (s * n) xs) @ concat (map (\<lambda>t. take n (drop (t * n) xs)) [Suc s..<L])"
    using sL by (simp add: upt_conv_Cons)
  also have "\<dots> = take n (drop (s * n) xs) @ drop (Suc s * n) xs"
    using Suc.hyps(1)[OF k] sL by simp
  also have "\<dots> = take n (drop (s * n) xs) @ drop n (drop (s * n) xs)"
    by (simp add: add.commute)
  also have "\<dots> = drop (s * n) xs" by (rule append_take_drop_id)
  finally show ?case .
qed

lemma loss_input_predictions:
  assumes "shape p = [L, B, V]" and "well_formed p" and "0 < V"
  shows "slice_from1 p = Inr \<lparr>shape = [L - 1, B, V], elems = positions_from1 p\<rparr>"
    and "view_rows \<lparr>shape = [L - 1, B, V], elems = positions_from1 p\<rparr> V
          = Inr \<lparr>shape = [(L - 1) * B, V], elems = positions_from1 p\<rparr>"
proof -
  have len: "length (elems p) = L * (B * V)"
    using assms(1,2) by (simp add: well_formed_def)
  have pos: "positions_from1 p = drop (B * V) (elems p)"
  proof (cases "1 \<le> L")
    case True
    from concat_blocks[OF len True] show ?thesis
      by (simp add: positions_from1_def position_def[abs_def] assms(1))
  next
    case False
    then show ?thesis using len by (simp add: positions_from1_def assms(1))
  qed
  show "slice_from1 p = Inr \<lparr>shape = [L - 1, B, V], elems = positions_from1 p\<rparr>"
    by (simp add: slice_from1_def assms(1) pos)
  show "view_rows \<lparr>shape = [L - 1, B, V], elems = positions_from1 p\<rparr> V
          = Inr \<lparr>shape = [(L - 1) * B, V], elems = positions_from1 p\<rparr>"
    using assms(3) by (simp add: view_rows_def)
qed

lemma loss_input_targets:
  assumes "shape trg = [L, B]" and "well_formed trg"
  shows "slice_from1 trg = Inr \<lparr>shape = [L - 1, B], elems = positions_from1 trg\<rparr>"
    and "view_flat \<lparr>shape = [L - 1, B], elems = positions_from1 trg\<rparr>
          = \<lparr>shape = [(L - 1) * B], elems = positions_from1 trg\<rparr>"
proof -
  have len: "length (elems trg) = L * B"
    using assms by (simp add: well_formed_def)
  have pos: "positions_from1 trg = drop B (elems trg)"
  proof (cases "1 \<le> L")
    case True
    from concat_blocks[OF len True] show ?thesis
      by (simp add: positions_from1_def position_def[abs_def] assms(1))
  next
    case False
    then show ?thesis using len by (simp add: positions_from1_def assms(1))
  qed
  show "slice_from1 trg = Inr \<lparr>shape = [L - 1, B], elems = positions_from1 trg\<rparr>"
    by (simp add: slice_from1_def assms(1) pos)
  show "view_flat \<lparr>shape = [L - 1, B], elems = positions_from1 trg\<rparr>
          = \<lparr>shape = [(L - 1) * B], elems = positions_from1 trg\<rparr>"
    by (simp add: view_flat_def)
qed

text \<open>
  C9. The training functions and the evaluation function give the loss function the
  predictions and the targets of the positions 1 to \<open>trg_len - 1\<close> only, flattened to
  \<open>(trg_len - 1) * batch\<close> rows; the loss, its gradients and everything computed from
  them are those of these positions. So position 0 never contributes: models that differ
  only in position 0 of their predictions, on dataloaders that differ only in position 0
  of their targets, give the same result of \<^verbatim>\<open>training_seq2seq\<close>, of
  \<^verbatim>\<open>evaluate_seq2seq\<close> and of \<^verbatim>\<open>training_validation_bleu\<close>.
\<close>

theorem loss_over_positions_after_first:
  "(models_agree (\<lambda>p. p) m m' \<and> models_agree fst mb mb' \<and> loaders_agree dl dl' \<longrightarrow>
      training_seq2seq env m dl n loss_fn opt device w fs
        = training_seq2seq env m' dl' n loss_fn opt device w fs
    \<and> evaluate_seq2seq env m dl loss_fn device w = evaluate_seq2seq env m' dl' loss_fn device w
    \<and> training_validation_bleu env mb dl n loss_fn opt device w
        = training_validation_bleu env mb' dl' n loss_fn opt device w)
   \<and> (tensor_to_raises env device = None
       \<and> shape (batch_trg b) = [L, B] \<and> well_formed (batch_trg b)
       \<and> shape p = [L, B, V] \<and> well_formed p \<and> 0 < V \<longrightarrow>
      (module_call m w (batch_src b) L = Inr (p, w1) \<longrightarrow>
         evaluate_batches env m loss_fn device [b] (acc, w) =
           (case loss_fn \<lparr>shape = [(L - 1) * B, V], elems = positions_from1 p\<rparr>
                         \<lparr>shape = [(L - 1) * B], elems = positions_from1 (batch_trg b)\<rparr> of
              Inl e \<Rightarrow> Inl e
            | Inr loss \<Rightarrow> Inr (acc + item loss, w1)))
    \<and> (module_call mu (zero_grad opt w) (batch_src b) L = Inr (out, w1) \<and> unpack out = p \<longrightarrow>
         train_batches env unpack mu loss_fn opt device [b] (acc, w) =
           (case loss_fn \<lparr>shape = [(L - 1) * B, V], elems = positions_from1 p\<rparr>
                         \<lparr>shape = [(L - 1) * B], elems = positions_from1 (batch_trg b)\<rparr> of
              Inl e \<Rightarrow> Inl e
            | Inr loss \<Rightarrow>
                (case backward loss w1 of
                   Inl e \<Rightarrow> Inl e
                 | Inr w2 \<Rightarrow>
                     (case clip_grad_norm env 1 w2 of
                        Inl e \<Rightarrow> Inl e
                      | Inr w3 \<Rightarrow>
                          (case step opt w3 of
                             Inl e \<Rightarrow> Inl e
                           | Inr w4 \<Rightarrow> Inr (acc + item loss, w4)))))))"
proof (intro conjI impI)
  assume a: "models_agree (\<lambda>p. p) m m' \<and> models_agree fst mb mb' \<and> loaders_agree dl dl'"
  then have m: "models_agree (\<lambda>p. p) m m'" and mb: "models_agree fst mb mb'"
    and l: "loaders_agree dl dl'" by auto
  have f: "module_train m = module_train m'" "module_eval m = module_eval m'"
    "module_to m = module_to m'"
    using m by (simp_all add: models_agree_def)
  have fb: "module_train mb = module_train mb'" "module_to mb = module_to mb'"
    using mb by (simp_all add: models_agree_def)
  show "training_seq2seq env m dl n loss_fn opt device w fs
        = training_seq2seq env m' dl' n loss_fn opt device w fs"
    by (simp add: training_seq2seq_def f training_seq2seq_epochs_agree[OF m l] split: sum.splits)
  show "evaluate_seq2seq env m dl loss_fn device w = evaluate_seq2seq env m' dl' loss_fn device w"
  proof (cases "module_to m' device (module_eval m' w)")
    case (Inl e)
    then show ?thesis by (simp add: evaluate_seq2seq_def f)
  next
    case (Inr w1)
    obtain bs w0 where d: "dl w1 = (bs, w0)" by (cases "dl w1") auto
    from loaders_agree_batches[OF l d] obtain bs' where
      d': "dl' w1 = (bs', w0)"
      and a: "list_all2 (\<lambda>b b'. batch_src b = batch_src b'
               \<and> same_after_first (batch_trg b) (batch_trg b')) bs bs'"
      by blast
    show ?thesis
      by (simp add: evaluate_seq2seq_def f Inr d d' evaluate_batches_agree[OF m a])
  qed
  show "training_validation_bleu env mb dl n loss_fn opt device w
        = training_validation_bleu env mb' dl' n loss_fn opt device w"
    by (simp add: training_validation_bleu_def fb training_validation_bleu_epochs_agree[OF mb l]
        split: sum.splits)
next
  assume h: "tensor_to_raises env device = None
       \<and> shape (batch_trg b) = [L, B] \<and> well_formed (batch_trg b)
       \<and> shape p = [L, B, V] \<and> well_formed p \<and> 0 < V"
  assume c: "module_call m w (batch_src b) L = Inr (p, w1)"
  from h have sl: "shape_last p = Inr V" by (simp add: shape_last_def)
  from h have sf: "shape_first (batch_trg b) = Inr L" by (simp add: shape_first_def)
  from h loss_input_predictions[of p L B V] loss_input_targets[of "batch_trg b" L B]
  show "evaluate_batches env m loss_fn device [b] (acc, w) =
           (case loss_fn \<lparr>shape = [(L - 1) * B, V], elems = positions_from1 p\<rparr>
                         \<lparr>shape = [(L - 1) * B], elems = positions_from1 (batch_trg b)\<rparr> of
              Inl e \<Rightarrow> Inl e
            | Inr loss \<Rightarrow> Inr (acc + item loss, w1))"
    by (simp add: tensor_to_def sf c sl split: sum.splits)
next
  assume h: "tensor_to_raises env device = None
       \<and> shape (batch_trg b) = [L, B] \<and> well_formed (batch_trg b)
       \<and> shape p = [L, B, V] \<and> well_formed p \<and> 0 < V"
  assume c: "module_call mu (zero_grad opt w) (batch_src b) L = Inr (out, w1) \<and> unpack out = p"
  from h have sl: "shape_last p = Inr V" by (simp add: shape_last_def)
  from h have sf: "shape_first (batch_trg b) = Inr L" by (simp add: shape_first_def)
  from h c loss_input_predictions[of p L B V] loss_input_targets[of "batch_trg b" L B]
  show "train_batches env unpack mu loss_fn opt device [b] (acc, w) =
           (case loss_fn \<lparr>shape = [(L - 1) * B, V], elems = positions_from1 p\<rparr>
                         \<lparr>shape = [(L - 1) * B], elems = positions_from1 (batch_trg b)\<rparr> of
              Inl e \<Rightarrow> Inl e
            | Inr loss \<Rightarrow>
                (case backward loss w1 of
                   Inl e \<Rightarrow> Inl e
                 | Inr w2 \<Rightarrow>
                     (case clip_grad_norm env 1 w2 of
                        Inl e \<Rightarrow> Inl e
                      | Inr w3 \<Rightarrow>
                          (case step opt w3 of
                             Inl e \<Rightarrow> Inl e
                           | Inr w4 \<Rightarrow> Inr (acc + item loss, w4)))))"
    by (simp add: tensor_to_def sf sl split: sum.splits)
qed

theorem loss_over_positions_after_first_witness:
  "evaluate_seq2seq toy_env (toy_model [0, 0, 1]) (toy_loader 2) toy_loss ''cpu'' ()
     = evaluate_seq2seq toy_env (toy_model [5, 5, 5]) (toy_loader 9) toy_loss ''cpu'' ()
   \<and> training_seq2seq toy_env (toy_model [0, 0, 1]) (toy_loader 2) 1 toy_loss toy_optimizer
        ''cpu'' () (Map.empty :: (nat, unit) files)
     = training_seq2seq toy_env (toy_model [5, 5, 5]) (toy_loader 9) 1 toy_loss toy_optimizer
        ''cpu'' () Map.empty
   \<and> training_validation_bleu toy_env (toy_pair_model [0, 0, 1]) (toy_loader 2) 1 toy_loss
        toy_optimizer ''cpu'' ()
     = training_validation_bleu toy_env (toy_pair_model [5, 5, 5]) (toy_loader 9) 1 toy_loss
        toy_optimizer ''cpu'' ()
   \<and> evaluate_batches toy_env (toy_model [0, 0, 1]) toy_loss ''cpu''
        [\<lparr>batch_src = \<lparr>shape = [1, 1], elems = [7]\<rparr>,
          batch_trg = \<lparr>shape = [2, 1], elems = [2, 4]\<rparr>\<rparr>] (0, ())
     = Inr (5, ())
   \<and> train_batches toy_env (\<lambda>p. p) (toy_model [0, 0, 1]) toy_loss toy_optimizer ''cpu''
        [\<lparr>batch_src = \<lparr>shape = [1, 1], elems = [7]\<rparr>,
          batch_trg = \<lparr>shape = [2, 1], elems = [2, 4]\<rparr>\<rparr>] (0, ())
     = Inr (5, ())"
proof -
  have m: "models_agree (\<lambda>p. p) (toy_model [0, 0, 1]) (toy_model [5, 5, 5])"
    by (simp add: models_agree_def toy_model_def same_after_first_def)
  have mb: "models_agree fst (toy_pair_model [0, 0, 1]) (toy_pair_model [5, 5, 5])"
    by (simp add: models_agree_def toy_pair_model_def same_after_first_def)
  have l: "loaders_agree (toy_loader 2) (toy_loader 9)"
    by (simp add: loaders_agree_def toy_loader_def same_after_first_def)
  define b where "b = \<lparr>batch_src = \<lparr>shape = [1, 1], elems = [7 :: int]\<rparr>,
          batch_trg = \<lparr>shape = [2, 1], elems = [2, 4 :: int]\<rparr>\<rparr>"
  define p where "p = \<lparr>shape = [2, 1, 3], elems = [0, 0, 1, 1, 0, 0 :: real]\<rparr>"
  have h: "tensor_to_raises toy_env ''cpu'' = None
       \<and> shape (batch_trg b) = [2, 1] \<and> well_formed (batch_trg b)
       \<and> shape p = [2, 1, 3] \<and> well_formed p \<and> (0 :: nat) < 3"
    by (simp add: toy_env_def b_def p_def well_formed_def)
  have c: "module_call (toy_model [0, 0, 1]) () (batch_src b) 2 = Inr (p, ())"
    by (simp add: toy_model_def p_def)
  have c2: "module_call (toy_model [0, 0, 1]) (zero_grad toy_optimizer ()) (batch_src b) 2
              = Inr (p, ()) \<and> (\<lambda>p. p) p = p"
    by (simp add: toy_model_def p_def)
  have pp: "positions_from1 p = [1, 0, 0]"
    by (simp add: positions_from1_def position_def p_def upt_rec[of _ "numeral _"])
  have pt: "positions_from1 (batch_trg b) = [4]"
    by (simp add: positions_from1_def position_def b_def upt_rec[of _ "numeral _"])
  note t = loss_over_positions_after_first[where m = "toy_model [0, 0, 1]"
      and m' = "toy_model [5, 5, 5]" and mb = "toy_pair_model [0, 0, 1]"
      and mb' = "toy_pair_model [5, 5, 5]" and dl = "toy_loader 2" and dl' = "toy_loader 9"
      and env = toy_env and loss_fn = toy_loss and opt = toy_optimizer and device = "''cpu''"
      and w = "()" and fs = "Map.empty :: (nat, unit) files" and n = 1
      and b = b and L = 2 and B = 1 and V = 3 and p = p and ?w1.0 = "()" and acc = 0
      and mu = "toy_model [0, 0, 1]" and out = p and unpack = "\<lambda>p. p"]
  from t m mb l have agree:
    "training_seq2seq toy_env (toy_model [0, 0, 1]) (toy_loader 2) 1 toy_loss toy_optimizer
        ''cpu'' () (Map.empty :: (nat, unit) files)
     = training_seq2seq toy_env (toy_model [5, 5, 5]) (toy_loader 9) 1 toy_loss toy_optimizer
        ''cpu'' () Map.empty
    \<and> evaluate_seq2seq toy_env (toy_model [0, 0, 1]) (toy_loader 2) toy_loss ''cpu'' ()
     = evaluate_seq2seq toy_env (toy_model [5, 5, 5]) (toy_loader 9) toy_loss ''cpu'' ()
    \<and> training_validation_bleu toy_env (toy_pair_model [0, 0, 1]) (toy_loader 2) 1 toy_loss
        toy_optimizer ''cpu'' ()
     = training_validation_bleu toy_env (toy_pair_model [5, 5, 5]) (toy_loader 9) 1 toy_loss
        toy_optimizer ''cpu'' ()"
    by blast
  from t h c have ev: "evaluate_batches toy_env (toy_model [0, 0, 1]) toy_loss ''cpu'' [b] (0, ())
     = Inr (5, ())"
    by (simp add: pp pt toy_loss_def)
  from t h c2 have tr: "train_batches toy_env (\<lambda>p. p) (toy_model [0, 0, 1]) toy_loss
       toy_optimizer ''cpu'' [b] (0, ()) = Inr (5, ())"
    by (simp add: pp pt toy_loss_def toy_env_def toy_optimizer_def)
  from agree ev tr show ?thesis unfolding b_def by simp
qed

section \<open>The files written\<close>





section \<open>The errors of the training and evaluation functions\<close>




















section \<open>The first token of a translation\<close>















end
